theory Spec2Isabelle
  imports Complex_Main "HOL-Library.Word" "HOL-Library.Monad_Syntax"
begin

section \<open>CLASSGUARD sensor firmware: the embedding\<close>

text \<open>
  The firmware of \<^verbatim>\<open>classguard_sensors.ino\<close> and \<^verbatim>\<open>config.h\<close> as HOL functions.
  Every source function keeps its name. What the firmware reads from the outside
  (ADC samples, the climate and light sensors, the millisecond clock, the broker's
  answers) is an argument of the function that reads it; what it writes (pin levels,
  tone calls, delays, serial output, MQTT traffic) is a field of the \<open>device\<close> record.
\<close>

subsection \<open>C \<^verbatim>\<open>float\<close> values\<close>

text \<open>
  A \<^verbatim>\<open>float\<close> is a finite number, an infinity or NaN. Finite values are carried as
  reals: a statement proved for every real holds for every representable float. The
  ordered comparisons follow IEEE 754: each of them is false as soon as one side is NaN.
  Rounding of arithmetic results is not modelled; the only function that computes on
  floats is \<open>calculateNoiseLevel\<close>.
\<close>

datatype cfloat = Fin real | PInf | NInf | NaN

fun isnan :: "cfloat \<Rightarrow> bool" where
  "isnan NaN = True"
| "isnan _ = False"

fun flt :: "cfloat \<Rightarrow> cfloat \<Rightarrow> bool" where
  "flt NaN _ = False"
| "flt _ NaN = False"
| "flt (Fin x) (Fin y) = (x < y)"
| "flt (Fin _) PInf = True"
| "flt (Fin _) NInf = False"
| "flt PInf _ = False"
| "flt NInf NInf = False"
| "flt NInf _ = True"

definition fgt :: "cfloat \<Rightarrow> cfloat \<Rightarrow> bool" where
  "fgt a b = flt b a"

definition fle :: "cfloat \<Rightarrow> cfloat \<Rightarrow> bool" where
  "fle a b = (\<not> isnan a \<and> \<not> isnan b \<and> \<not> flt b a)"

definition of_long :: "int \<Rightarrow> cfloat" where
  \<comment> \<open>conversion of an integer operand to floating point\<close>
  "of_long n = Fin (of_int n)"

text \<open>
  Multiplication, division and \<^verbatim>\<open>log10\<close> with their special cases (zeros are unsigned
  here): \<^verbatim>\<open>log10\<close> of zero is minus infinity and of a negative number NaN, and NaN
  propagates through every operation.
\<close>

fun fmul :: "cfloat \<Rightarrow> cfloat \<Rightarrow> cfloat" where
  "fmul NaN _ = NaN"
| "fmul _ NaN = NaN"
| "fmul (Fin x) (Fin y) = Fin (x * y)"
| "fmul (Fin x) PInf = (if x = 0 then NaN else if 0 < x then PInf else NInf)"
| "fmul (Fin x) NInf = (if x = 0 then NaN else if 0 < x then NInf else PInf)"
| "fmul PInf (Fin y) = (if y = 0 then NaN else if 0 < y then PInf else NInf)"
| "fmul NInf (Fin y) = (if y = 0 then NaN else if 0 < y then NInf else PInf)"
| "fmul PInf PInf = PInf"
| "fmul PInf NInf = NInf"
| "fmul NInf PInf = NInf"
| "fmul NInf NInf = PInf"

fun fdiv :: "cfloat \<Rightarrow> cfloat \<Rightarrow> cfloat" where
  "fdiv NaN _ = NaN"
| "fdiv _ NaN = NaN"
| "fdiv (Fin x) (Fin y) =
     (if y = 0 then (if x = 0 then NaN else if 0 < x then PInf else NInf) else Fin (x / y))"
| "fdiv (Fin _) PInf = Fin 0"
| "fdiv (Fin _) NInf = Fin 0"
| "fdiv PInf (Fin y) = (if 0 \<le> y then PInf else NInf)"
| "fdiv NInf (Fin y) = (if 0 \<le> y then NInf else PInf)"
| "fdiv _ _ = NaN"

fun flog10 :: "cfloat \<Rightarrow> cfloat" where
  "flog10 (Fin x) = (if 0 < x then Fin (log 10 x) else if x = 0 then NInf else NaN)"
| "flog10 PInf = PInf"
| "flog10 NInf = NaN"
| "flog10 NaN = NaN"

subsection \<open>Machine integers\<close>

text \<open>
  \<^verbatim>\<open>int\<close> and \<^verbatim>\<open>long\<close> are 32-bit two's complement on the ESP32: \<open>wrap32\<close> brings
  an integer result back into that range, and \<open>c_div\<close> is C's division, which truncates
  towards zero. \<^verbatim>\<open>unsigned long\<close> is \<open>32 word\<close>.
\<close>

definition wrap32 :: "int \<Rightarrow> int" where
  "wrap32 x = (x + 2 ^ 31) mod 2 ^ 32 - 2 ^ 31"

definition c_div :: "int \<Rightarrow> int \<Rightarrow> int" where
  "c_div a b = (if (a < 0) = (b < 0) then \<bar>a\<bar> div \<bar>b\<bar> else - (\<bar>a\<bar> div \<bar>b\<bar>))"

subsection \<open>Arduino core: \<^verbatim>\<open>map\<close>, \<^verbatim>\<open>constrain\<close>\<close>

text \<open>
  Both come from the Arduino core, not from this repository. \<open>map_long\<close> is the core's
  \<^verbatim>\<open>long map(long x, long in_min, long in_max, long out_min, long out_max)\<close>, which returns
  \<^verbatim>\<open>(x - in_min) * (out_max - out_min) / (in_max - in_min) + out_min\<close> in \<^verbatim>\<open>long\<close>
  arithmetic (and \<open>-1\<close> for an empty input range); \<open>constrain\<close> is the macro
  \<^verbatim>\<open>((amt)<(low)?(low):((amt)>(high)?(high):(amt)))\<close>.
\<close>

definition map_long :: "int \<Rightarrow> int \<Rightarrow> int \<Rightarrow> int \<Rightarrow> int \<Rightarrow> int" where
  "map_long x in_min in_max out_min out_max =
     (let run = wrap32 (in_max - in_min);
          rise = wrap32 (out_max - out_min);
          delta = wrap32 (x - in_min)
      in if run = 0 then - 1
         else wrap32 (c_div (wrap32 (delta * rise)) run + out_min))"

definition constrain :: "cfloat \<Rightarrow> cfloat \<Rightarrow> cfloat \<Rightarrow> cfloat" where
  "constrain amt low high = (if flt amt low then low else if fgt amt high then high else amt)"

subsection \<open>\<^verbatim>\<open>config.h\<close>\<close>

definition RELAY_FAN :: nat where "RELAY_FAN = 26"
definition RELAY_LIGHT :: nat where "RELAY_LIGHT = 27"
definition BUZZER_PIN :: nat where "BUZZER_PIN = 25"

definition CO2_THRESHOLD :: int where "CO2_THRESHOLD = 1000"
definition LUX_THRESHOLD :: int where "LUX_THRESHOLD = 300"
definition TEMP_THRESHOLD :: int where "TEMP_THRESHOLD = 35"
definition HUMIDITY_THRESHOLD :: int where "HUMIDITY_THRESHOLD = 80"
definition NOISE_THRESHOLD :: int where "NOISE_THRESHOLD = 70"

definition mqtt_topic_publish :: string where "mqtt_topic_publish = ''classguard/sensors''"
definition mqtt_topic_subscribe :: string where "mqtt_topic_subscribe = ''classguard/control''"
definition mqtt_client_id :: string where "mqtt_client_id = ''ESP32_CLASSGUARD_''"

subsection \<open>ArduinoJson documents\<close>

text \<open>
  ArduinoJson is a library outside this repository. A document is taken as the members
  of its root object: a map from keys to values, empty when the root is not an object.
  \<open>containsKey\<close> asks whether a member exists, and \<open>asBool\<close> is the library's conversion
  of a value to \<^verbatim>\<open>bool\<close>, which is what \<^verbatim>\<open>doc["fan"] ? LOW : HIGH\<close> evaluates: a boolean is
  itself, a number is true when it is not zero, null (and a missing member) is false,
  and a string, an array or an object is true.
\<close>

datatype JsonVariant =
    JNull
  | JBool bool
  | JInt int
  | JFloat cfloat
  | JString string
  | JArray "JsonVariant list"
  | JObject "(string \<times> JsonVariant) list"

type_synonym JsonDocument = "string \<rightharpoonup> JsonVariant"

datatype DeserializationError = EmptyInput | IncompleteInput | InvalidInput | NoMemory | TooDeep

definition containsKey :: "JsonDocument \<Rightarrow> string \<Rightarrow> bool" where
  "containsKey doc key = (doc key \<noteq> None)"

fun asBool :: "JsonVariant \<Rightarrow> bool" where
  "asBool JNull = False"
| "asBool (JBool b) = b"
| "asBool (JInt n) = (n \<noteq> 0)"
| "asBool (JFloat x) = (x \<noteq> Fin 0)"
| "asBool _ = True"

definition member_bool :: "JsonDocument \<Rightarrow> string \<Rightarrow> bool" where
  "member_bool doc key = (case doc key of None \<Rightarrow> False | Some v \<Rightarrow> asBool v)"

subsection \<open>The device\<close>

datatype level = LOW | HIGH

datatype pin_mode = INPUT | OUTPUT

datatype serial_out = Text string | Number int | Pretty JsonDocument

text \<open>
  \<open>pins\<close> holds the level last written to each pin by \<^verbatim>\<open>digitalWrite\<close>; \<open>tones\<close>,
  \<open>delays\<close>, \<open>serial\<close>, \<open>mqtt_attempts\<close>, \<open>mqtt_subscriptions\<close> and \<open>mqtt_published\<close>
  are the calls made so far, oldest first: \<^verbatim>\<open>tone(pin, frequency, duration)\<close>,
  \<^verbatim>\<open>delay(ms)\<close>, the \<^verbatim>\<open>Serial\<close> output, the client identifiers passed to
  \<^verbatim>\<open>mqttClient.connect\<close>, the topics passed to \<^verbatim>\<open>mqttClient.subscribe\<close>, and the
  topic, document and result of each \<^verbatim>\<open>mqttClient.publish\<close>. \<open>mqtt_connected\<close> is what
  \<^verbatim>\<open>mqttClient.connected()\<close> returns, \<open>wifi_polls\<close> counts the calls of
  \<^verbatim>\<open>WiFi.status()\<close>, and \<open>lastPublish\<close> is the global of that name.
\<close>

record device =
  pins :: "nat \<Rightarrow> level"
  modes :: "nat \<rightharpoonup> pin_mode"
  tones :: "(nat \<times> nat \<times> nat) list"
  delays :: "nat list"
  serial :: "serial_out list"
  lastPublish :: "32 word"
  mqtt_connected :: bool
  mqtt_attempts :: "string list"
  mqtt_subscriptions :: "string list"
  mqtt_published :: "(string \<times> JsonDocument \<times> bool) list"
  wifi_polls :: nat

definition publishInterval :: int where "publishInterval = 5000"

definition pinMode :: "nat \<Rightarrow> pin_mode \<Rightarrow> device \<Rightarrow> device" where
  "pinMode pin m s = s\<lparr>modes := (modes s)(pin \<mapsto> m)\<rparr>"

definition digitalWrite :: "nat \<Rightarrow> level \<Rightarrow> device \<Rightarrow> device" where
  "digitalWrite pin v s = s\<lparr>pins := (pins s)(pin := v)\<rparr>"

definition tone :: "nat \<Rightarrow> nat \<Rightarrow> nat \<Rightarrow> device \<Rightarrow> device" where
  "tone pin frequency duration s = s\<lparr>tones := tones s @ [(pin, frequency, duration)]\<rparr>"

definition delay :: "nat \<Rightarrow> device \<Rightarrow> device" where
  "delay ms s = s\<lparr>delays := delays s @ [ms]\<rparr>"

definition Serial_print :: "serial_out \<Rightarrow> device \<Rightarrow> device" where
  "Serial_print x s = s\<lparr>serial := serial s @ [x]\<rparr>"

text \<open>
  The outside world. A \<open>sensors\<close> value is what the four sensors return when they are
  read: \<^verbatim>\<open>analogRead(MQ135_PIN)\<close>, \<^verbatim>\<open>dht.readTemperature()\<close>, \<^verbatim>\<open>dht.readHumidity()\<close>,
  \<^verbatim>\<open>lightMeter.readLightLevel()\<close> and \<^verbatim>\<open>analogRead(MIC_PIN)\<close>. A \<open>network\<close> answers the
  calls in the order they are made: \<open>wifi_up n\<close> is whether the \<open>n\<close>-th
  \<^verbatim>\<open>WiFi.status()\<close> is \<^verbatim>\<open>WL_CONNECTED\<close>, \<open>connect_result n\<close> and \<open>client_state n\<close> are the
  result of the \<open>n\<close>-th \<^verbatim>\<open>mqttClient.connect\<close> and the \<^verbatim>\<open>mqttClient.state()\<close> after it,
  \<open>random_value n\<close> is the number the generator yields for the \<open>n\<close>-th \<^verbatim>\<open>random\<close> call, and
  \<open>deserializeJson\<close> is the library's parser.
\<close>

record sensors =
  mq135 :: int
  dht_temperature :: cfloat
  dht_humidity :: cfloat
  light_level :: cfloat
  mic :: int

record network =
  wifi_up :: "nat \<Rightarrow> bool"
  connect_result :: "nat \<Rightarrow> bool"
  client_state :: "nat \<Rightarrow> int"
  random_value :: "nat \<Rightarrow> nat"
  deserializeJson :: "string \<Rightarrow> DeserializationError + JsonDocument"

text \<open>
  One pass of \<^verbatim>\<open>loop()\<close> sees: the message that \<^verbatim>\<open>mqttClient.loop()\<close> hands to the
  callback, if any; the clock at line 68; the sensors, the clock and the broker's
  answer inside \<^verbatim>\<open>publishSensorData\<close>; the sensors inside \<^verbatim>\<open>autoControlDevices\<close>.
\<close>

record cycle =
  inbound :: "string option"
  now :: "32 word"
  snapshot_sensors :: sensors
  timestamp :: "32 word"
  publish_result :: bool
  control_sensors :: sensors

subsection \<open>Derived metrics\<close>


definition calculateAQI :: "cfloat \<Rightarrow> cfloat" where
  "calculateAQI co2 =
     (if flt co2 (of_long 600) then of_long 0
      else if flt co2 (of_long 1000) then of_long 1
      else if flt co2 (of_long 1500) then of_long 2
      else if flt co2 (of_long 2000) then of_long 3
      else of_long 4)"

definition calculateClassScore :: "cfloat \<Rightarrow> cfloat \<Rightarrow> cfloat \<Rightarrow> cfloat \<Rightarrow> cfloat \<Rightarrow> int" where
  "calculateClassScore co2 temp humidity lux noise =
     (let score = 100;
          score = (if fgt co2 (of_long CO2_THRESHOLD) then score - 20 else score);
          score = (if fgt temp (of_long TEMP_THRESHOLD) then score - 15 else score);
          score = (if fgt humidity (of_long HUMIDITY_THRESHOLD) then score - 10 else score);
          score = (if flt lux (of_long LUX_THRESHOLD) then score - 15 else score);
          score = (if fgt noise (of_long NOISE_THRESHOLD) then score - 20 else score)
      in max score 0)"

definition calculateNoiseLevel :: "int \<Rightarrow> cfloat" where
  "calculateNoiseLevel micValue =
     (let voltage = fmul (of_long micValue) (Fin (3.3 / 4095.0));
          noiseDB = fmul (of_long 20) (flog10 (fdiv voltage (Fin 0.00631)))
      in constrain noiseDB (of_long 30) (of_long 120))"

definition getStatusMessage :: "int \<Rightarrow> string" where
  "getStatusMessage score =
     (if score \<ge> 80 then ''Excellent''
      else if score \<ge> 60 then ''Good''
      else if score \<ge> 40 then ''Fair''
      else ''Poor'')"

subsection \<open>Telemetry\<close>

definition readSensors :: "sensors \<Rightarrow> JsonDocument \<Rightarrow> JsonDocument" where
  "readSensors sn doc =
     (let mq135Value = mq135 sn;
          co2_ppm = of_long (map_long mq135Value 0 4095 300 10000);
          doc = doc(''co2'' \<mapsto> JFloat co2_ppm);
          doc = doc(''aqi'' \<mapsto> JFloat (calculateAQI co2_ppm));
          temp = dht_temperature sn;
          humidity = dht_humidity sn;
          doc = (if \<not> isnan temp then doc(''temperature'' \<mapsto> JFloat temp) else doc);
          doc = (if \<not> isnan humidity then doc(''humidity'' \<mapsto> JFloat humidity) else doc);
          lux = light_level sn;
          doc = doc(''light'' \<mapsto> JFloat lux);
          micValue = mic sn;
          noiseDB = calculateNoiseLevel micValue;
          doc = doc(''noise'' \<mapsto> JFloat noiseDB);
          score = calculateClassScore co2_ppm temp humidity lux noiseDB;
          doc = doc(''class_score'' \<mapsto> JInt score)
      in doc(''status'' \<mapsto> JString (getStatusMessage score)))"

definition publishSensorData :: "cycle \<Rightarrow> device \<Rightarrow> device" where
  "publishSensorData c s =
     (let doc = readSensors (snapshot_sensors c) Map.empty;
          doc = doc(''timestamp'' \<mapsto> JInt (uint (timestamp c)));
          doc = doc(''device_id'' \<mapsto> JString mqtt_client_id);
          s = s\<lparr>mqtt_published := mqtt_published s @ [(mqtt_topic_publish, doc, publish_result c)]\<rparr>
      in if publish_result c
         then Serial_print (Pretty doc) (Serial_print (Text ''Data published:'') s)
         else s)"

subsection \<open>Actuators\<close>

definition autoControlDevices :: "sensors \<Rightarrow> device \<Rightarrow> device" where
  "autoControlDevices sn s =
     (let temp = dht_temperature sn;
          lux = light_level sn;
          micValue = mic sn;
          noise = calculateNoiseLevel micValue;
          s = (if fgt temp (of_long TEMP_THRESHOLD)
               then digitalWrite RELAY_FAN LOW s
               else digitalWrite RELAY_FAN HIGH s);
          s = (if flt lux (of_long LUX_THRESHOLD)
               then digitalWrite RELAY_LIGHT LOW s
               else digitalWrite RELAY_LIGHT HIGH s)
      in if fgt noise (of_long NOISE_THRESHOLD) then tone BUZZER_PIN 1000 1000 s else s)"

definition controlDevices :: "network \<Rightarrow> string \<Rightarrow> device \<Rightarrow> device" where
  "controlDevices net message s =
     (case deserializeJson net message of
        Inl error \<Rightarrow> s
      | Inr doc \<Rightarrow>
          (let s = (if containsKey doc ''fan''
                    then digitalWrite RELAY_FAN (if member_bool doc ''fan'' then LOW else HIGH) s
                    else s);
               s = (if containsKey doc ''light''
                    then digitalWrite RELAY_LIGHT (if member_bool doc ''light'' then LOW else HIGH) s
                    else s)
           in if containsKey doc ''buzzer''
              then digitalWrite BUZZER_PIN (if member_bool doc ''buzzer'' then HIGH else LOW) s
              else s))"

text \<open>
  The logical state of an actuator, read off its pin: the relays are active-low
  (\<^verbatim>\<open>// Relay OFF (Active LOW)\<close>, \<^verbatim>\<open>// Fan ON\<close> beside a write of \<^verbatim>\<open>LOW\<close>), the buzzer
  pin is active-high.
\<close>

definition fan_on :: "device \<Rightarrow> bool" where
  "fan_on s = (pins s RELAY_FAN = LOW)"

definition light_on :: "device \<Rightarrow> bool" where
  "light_on s = (pins s RELAY_LIGHT = LOW)"

definition buzzer_on :: "device \<Rightarrow> bool" where
  "buzzer_on s = (pins s BUZZER_PIN = HIGH)"

subsection \<open>Connectivity\<close>

text \<open>\<^verbatim>\<open>String(n, HEX)\<close>: the digits of \<open>n\<close> in base 16, lower case, no padding.\<close>

definition hex_digit :: "nat \<Rightarrow> char" where
  "hex_digit d = ''0123456789abcdef'' ! d"

fun String_HEX :: "nat \<Rightarrow> string" where
  "String_HEX n = (if n < 16 then [hex_digit n] else String_HEX (n div 16) @ [hex_digit (n mod 16)])"

declare String_HEX.simps [simp del]

definition random :: "network \<Rightarrow> nat \<Rightarrow> nat \<Rightarrow> nat" where
  \<comment> \<open>\<^verbatim>\<open>random(howbig)\<close> of the core: the generator's next value modulo \<open>howbig\<close>\<close>
  "random net n howbig = (if howbig = 0 then 0 else random_value net n mod howbig)"

text \<open>
  \<^verbatim>\<open>connectMQTT\<close> may loop forever: \<open>None\<close> is the run that never returns. After a
  \<^verbatim>\<open>connect\<close> that returned true, \<^verbatim>\<open>connected()\<close> is true.
\<close>

partial_function (option) connectMQTT :: "network \<Rightarrow> device \<Rightarrow> device option" where
  "connectMQTT net s =
     (if \<not> mqtt_connected s
      then (let n = length (mqtt_attempts s);
                clientId = mqtt_client_id @ String_HEX (random net n 0xffff);
                s = s\<lparr>mqtt_attempts := mqtt_attempts s @ [clientId]\<rparr>
            in if connect_result net n
               then connectMQTT net
                      (Serial_print (Text ''MQTT connected!'')
                        (s\<lparr>mqtt_connected := True,
                           mqtt_subscriptions := mqtt_subscriptions s @ [mqtt_topic_subscribe]\<rparr>))
               else connectMQTT net
                      (delay 2000
                        (Serial_print (Number (client_state net n))
                          (Serial_print (Text ''MQTT connection failed, rc='') s))))
      else Some s)"

subsection \<open>\<^verbatim>\<open>setup\<close> and \<^verbatim>\<open>loop\<close>\<close>

definition setup_pins :: "device \<Rightarrow> device" where
  \<comment> \<open>lines 31 to 36 of \<^verbatim>\<open>setup\<close>\<close>
  "setup_pins s =
     (let s = pinMode RELAY_FAN OUTPUT s;
          s = pinMode RELAY_LIGHT OUTPUT s;
          s = pinMode BUZZER_PIN OUTPUT s;
          s = digitalWrite RELAY_FAN HIGH s;
          s = digitalWrite RELAY_LIGHT HIGH s
      in digitalWrite BUZZER_PIN LOW s)"

partial_function (option) wifi_wait :: "network \<Rightarrow> device \<Rightarrow> device option" where
  \<comment> \<open>the loop of lines 43 to 46\<close>
  "wifi_wait net s =
     (let n = wifi_polls s;
          s = s\<lparr>wifi_polls := Suc n\<rparr>
      in if \<not> wifi_up net n
         then wifi_wait net (Serial_print (Text ''Connecting to WiFi...'') (delay 1000 s))
         else Some s)"

definition setup_esp32 :: "network \<Rightarrow> device \<Rightarrow> device option" where
  \<comment> \<open>\<^verbatim>\<open>setup()\<close>: the name alone is taken by Isabelle\<close>
  "setup_esp32 net s =
     do {
       s \<leftarrow> wifi_wait net (setup_pins s);
       connectMQTT net (Serial_print (Text ''WiFi connected'') s)
     }"

definition loop :: "network \<Rightarrow> cycle \<Rightarrow> device \<Rightarrow> device option" where
  "loop net c s =
     do {
       s \<leftarrow> (if \<not> mqtt_connected s then connectMQTT net s else Some s);
       s \<leftarrow> Some (case inbound c of None \<Rightarrow> s | Some message \<Rightarrow> controlDevices net message s);
       s \<leftarrow> Some (if now c - lastPublish s \<ge> word_of_int publishInterval
                   then (publishSensorData c s)\<lparr>lastPublish := now c\<rparr>
                   else s);
       s \<leftarrow> Some (autoControlDevices (control_sensors c) s);
       Some (delay 100 s)
     }"

subsection \<open>A concrete device and network\<close>

text \<open>
  Used to run the functions on concrete inputs. \<open>power_on\<close> is a device on which nothing
  has been called yet (\<open>lastPublish\<close> is 0, its initialiser). \<open>lab_network\<close> is a network
  whose third WiFi poll and third MQTT connect succeed, and whose parser knows two
  payloads and rejects every other text.
\<close>

definition power_on :: device where
  "power_on = \<lparr>pins = (\<lambda>_. LOW), modes = Map.empty, tones = [], delays = [], serial = [],
     lastPublish = 0, mqtt_connected = False, mqtt_attempts = [], mqtt_subscriptions = [],
     mqtt_published = [], wifi_polls = 0\<rparr>"

definition lab_network :: network where
  \<open>lab_network = \<lparr>wifi_up = (\<lambda>n. 2 \<le> n), connect_result = (\<lambda>n. 2 \<le> n),
     client_state = (\<lambda>n. if 2 \<le> n then 0 else - 2), random_value = (\<lambda>n. 4660 + n),
     deserializeJson = (\<lambda>message.
        if message = ''{"fan": true}'' then Inr [''fan'' \<mapsto> JBool True]
        else if message = ''{"buzzer": 1, "light": false}''
        then Inr [''buzzer'' \<mapsto> JInt 1, ''light'' \<mapsto> JBool False]
        else Inl InvalidInput)\<rparr>\<close>

text \<open>
  \<open>lab_cycle\<close> is one pass of \<^verbatim>\<open>loop()\<close> at 6000 ms: a command to switch the fan on
  arrives, the climate sensor fails to deliver a temperature for the snapshot, the
  broker refuses the publish, and the readings for the automatic control are hot, dark
  and loud.
\<close>

definition lab_cycle :: cycle where
  \<open>lab_cycle = \<lparr>inbound = Some ''{"fan": true}'', now = 6000,
     snapshot_sensors = \<lparr>mq135 = 2048, dht_temperature = NaN, dht_humidity = Fin 85,
       light_level = Fin 250, mic = 4095\<rparr>,
     timestamp = 6001, publish_result = False,
     control_sensors = \<lparr>mq135 = 2048, dht_temperature = Fin 36, dht_humidity = Fin 85,
       light_level = Fin 250, mic = 10000000\<rparr>\<rparr>\<close>

section \<open>Properties\<close>

subsection \<open>Derived metrics\<close>

text \<open>
  C1. \<open>calculateClassScore\<close> starts at 100 and subtracts 20 when co2 > 1000, 15 when
  temp > 35, 10 when humidity > 80, 15 when lux < 300 and 20 when noise > 70, each on its
  own, and floors the result at 0. The result is always between 0 and 100; it is 20 when
  the five conditions hold together and 100 when none holds. A comparison with NaN is
  false, so a NaN input triggers no penalty.
\<close>

theorem calculateClassScore_penalties:
  "calculateClassScore co2 temp humidity lux noise =
     max (100 - (if fgt co2 (Fin 1000) then 20 else 0)
              - (if fgt temp (Fin 35) then 15 else 0)
              - (if fgt humidity (Fin 80) then 10 else 0)
              - (if flt lux (Fin 300) then 15 else 0)
              - (if fgt noise (Fin 70) then 20 else 0)) 0
   \<and> 0 \<le> calculateClassScore co2 temp humidity lux noise
   \<and> calculateClassScore co2 temp humidity lux noise \<le> 100
   \<and> (fgt co2 (Fin 1000) \<and> fgt temp (Fin 35) \<and> fgt humidity (Fin 80) \<and> flt lux (Fin 300)
        \<and> fgt noise (Fin 70) \<longrightarrow> calculateClassScore co2 temp humidity lux noise = 20)
   \<and> (\<not> fgt co2 (Fin 1000) \<and> \<not> fgt temp (Fin 35) \<and> \<not> fgt humidity (Fin 80)
        \<and> \<not> flt lux (Fin 300) \<and> \<not> fgt noise (Fin 70)
        \<longrightarrow> calculateClassScore co2 temp humidity lux noise = 100)"
  by (simp add: calculateClassScore_def of_long_def Let_def
      CO2_THRESHOLD_def TEMP_THRESHOLD_def HUMIDITY_THRESHOLD_def LUX_THRESHOLD_def
      NOISE_THRESHOLD_def)

theorem calculateClassScore_penalties_witness:
  "calculateClassScore (Fin 1200) (Fin 36) (Fin 85) (Fin 250) (Fin 75) = 20
   \<and> calculateClassScore (Fin 400) (Fin 25) (Fin 50) (Fin 500) (Fin 40) = 100
   \<and> calculateClassScore (Fin 400) NaN NaN (Fin 500) (Fin 40) = 100"
  using calculateClassScore_penalties [of "Fin 1200" "Fin 36" "Fin 85" "Fin 250" "Fin 75"]
        calculateClassScore_penalties [of "Fin 400" "Fin 25" "Fin 50" "Fin 500" "Fin 40"]
        calculateClassScore_penalties [of "Fin 400" NaN NaN "Fin 500" "Fin 40"]
  by (simp add: fgt_def)

text \<open>
  C2. For every CO2 input \<open>p\<close>, \<open>calculateAQI p\<close> is one of 0, 1, 2, 3, 4, does not
  decrease when \<open>p\<close> grows, and is the step function with strict comparisons: below 600
  gives 0, below 1000 gives 1, below 1500 gives 2, below 2000 gives 3, anything else 4.
  So 599 gives 0, 600 gives 1, 1999 gives 3 and 2000 gives 4.
\<close>

theorem calculateAQI_step:
  "calculateAQI p \<in> {Fin 0, Fin 1, Fin 2, Fin 3, Fin 4}
   \<and> (fle p q \<longrightarrow> fle (calculateAQI p) (calculateAQI q))
   \<and> calculateAQI p =
       (if flt p (Fin 600) then Fin 0
        else if flt p (Fin 1000) then Fin 1
        else if flt p (Fin 1500) then Fin 2
        else if flt p (Fin 2000) then Fin 3
        else Fin 4)
   \<and> calculateAQI (Fin 599) = Fin 0
   \<and> calculateAQI (Fin 600) = Fin 1
   \<and> calculateAQI (Fin 1999) = Fin 3
   \<and> calculateAQI (Fin 2000) = Fin 4"
proof -
  have range: "calculateAQI p \<in> {Fin 0, Fin 1, Fin 2, Fin 3, Fin 4}"
    by (simp add: calculateAQI_def of_long_def)
  have mono: "fle (calculateAQI p) (calculateAQI q)" if "fle p q"
    using that by (cases p; cases q) (simp_all add: calculateAQI_def of_long_def fle_def)
  have step: "calculateAQI p =
       (if flt p (Fin 600) then Fin 0
        else if flt p (Fin 1000) then Fin 1
        else if flt p (Fin 1500) then Fin 2
        else if flt p (Fin 2000) then Fin 3
        else Fin 4)"
    by (simp add: calculateAQI_def of_long_def)
  have edges: "calculateAQI (Fin 599) = Fin 0" "calculateAQI (Fin 600) = Fin 1"
    "calculateAQI (Fin 1999) = Fin 3" "calculateAQI (Fin 2000) = Fin 4"
    by (simp_all add: calculateAQI_def of_long_def)
  from range mono step edges show ?thesis by blast
qed

theorem calculateAQI_step_witness:
  "fle (Fin 599) (Fin 600) \<and> fle (calculateAQI (Fin 599)) (calculateAQI (Fin 600))"
  using calculateAQI_step [of "Fin 599" "Fin 600"] by (simp add: fle_def)

subsection \<open>The gas reading\<close>

lemma wrap32_id: "- (2 ^ 31) \<le> x \<Longrightarrow> x < 2 ^ 31 \<Longrightarrow> wrap32 x = x"
  by (simp add: wrap32_def)

lemma c_div_nonneg: "0 \<le> a \<Longrightarrow> 0 < b \<Longrightarrow> c_div a b = a div b"
  by (simp add: c_div_def)

lemma map_long_adc:
  assumes "0 \<le> r" "r \<le> 4095"
  shows "map_long r 0 4095 300 10000 = 300 + (r * 9700) div 4095"
proof -
  have prod: "0 \<le> r * 9700" "r * 9700 \<le> 39721500"
    using assms by simp_all
  have "(r * 9700) div 4095 \<le> 39721500 div 4095"
    using prod by (intro zdiv_mono1) simp_all
  then have quot: "0 \<le> (r * 9700) div 4095" "(r * 9700) div 4095 \<le> 9700"
    using prod by (simp_all add: pos_imp_zdiv_nonneg_iff)
  have w1: "wrap32 (r * 9700) = r * 9700"
    using prod by (intro wrap32_id) simp_all
  have w2: "wrap32 ((r * 9700) div 4095 + 300) = (r * 9700) div 4095 + 300"
    using quot by (intro wrap32_id) simp_all
  have w3: "wrap32 r = r"
    using assms by (intro wrap32_id) simp_all
  show ?thesis
    using prod by (simp add: map_long_def Let_def wrap32_id w1 w2 w3 c_div_nonneg)
qed

lemma map_long_adc_line:
  assumes "0 \<le> r" "r \<le> 4095"
  shows "real_of_int (300 + (r * 9700) div 4095) \<le> 300 + 9700 * real_of_int r / 4095"
    and "300 + 9700 * real_of_int r / 4095 < real_of_int (300 + (r * 9700) div 4095) + 1"
proof -
  have "real_of_int ((r * 9700) div 4095) = of_int \<lfloor>real_of_int (r * 9700) / real_of_int 4095\<rfloor>"
    by (simp only: floor_divide_of_int_eq)
  then have eq: "real_of_int ((r * 9700) div 4095) = of_int \<lfloor>9700 * real_of_int r / 4095\<rfloor>"
    by (simp add: mult.commute)
  show "real_of_int (300 + (r * 9700) div 4095) \<le> 300 + 9700 * real_of_int r / 4095"
    using eq of_int_floor_le [of "9700 * real_of_int r / 4095"] by simp
  show "300 + 9700 * real_of_int r / 4095 < real_of_int (300 + (r * 9700) div 4095) + 1"
    using eq floor_correct [of "9700 * real_of_int r / 4095"] by simp
qed

lemma readSensors_co2: "readSensors sn doc ''co2'' = Some (JFloat (of_long (map_long (mq135 sn) 0 4095 300 10000)))"
  by (simp add: readSensors_def Let_def)

text \<open>
  C5, as the claim states it: the mapped value is a linear function of the raw reading.
  It is not: \<^verbatim>\<open>map\<close> divides in integer arithmetic, so equal steps of the reading give
  unequal steps of the result. The readings 1, 2 and 3 map to 302, 304 and 307.
\<close>

theorem map_not_linear:
  "map_long 1 0 4095 300 10000 = 302 \<and> map_long 2 0 4095 300 10000 = 304
   \<and> map_long 3 0 4095 300 10000 = 307
   \<and> map_long 3 0 4095 300 10000 - map_long 2 0 4095 300 10000
       \<noteq> map_long 2 0 4095 300 10000 - map_long 1 0 4095 300 10000"
  by (simp add: map_long_adc)

text \<open>
  C5, amended. For every raw reading \<open>r\<close> from 0 to 4095, the value that \<open>readSensors\<close>
  stores under \<^verbatim>\<open>co2\<close> is \<open>300 + (r * 9700) div 4095\<close>: the line from (0, 300) to
  (4095, 10000) truncated to an integer, hence less than 1 below the line. It lies
  between 300 and 10000, does not decrease when \<open>r\<close> grows, and is 300 at 0 and 10000 at
  4095.
\<close>

theorem co2_mapping:
  assumes "0 \<le> r" "r \<le> 4095"
  shows "map_long r 0 4095 300 10000 = 300 + (r * 9700) div 4095
    \<and> (mq135 sn = r \<longrightarrow> readSensors sn doc ''co2'' = Some (JFloat (Fin (of_int (300 + (r * 9700) div 4095)))))
    \<and> 300 \<le> map_long r 0 4095 300 10000 \<and> map_long r 0 4095 300 10000 \<le> 10000
    \<and> (0 \<le> r' \<and> r' \<le> r \<longrightarrow> map_long r' 0 4095 300 10000 \<le> map_long r 0 4095 300 10000)
    \<and> real_of_int (map_long r 0 4095 300 10000) \<le> 300 + 9700 * real_of_int r / 4095
    \<and> 300 + 9700 * real_of_int r / 4095 < real_of_int (map_long r 0 4095 300 10000) + 1
    \<and> map_long 0 0 4095 300 10000 = 300 \<and> map_long 4095 0 4095 300 10000 = 10000"
proof -
  have eq: "map_long r 0 4095 300 10000 = 300 + (r * 9700) div 4095"
    using assms by (rule map_long_adc)
  have doc: "readSensors sn doc ''co2'' = Some (JFloat (Fin (of_int (300 + (r * 9700) div 4095))))"
    if "mq135 sn = r"
    using that eq by (simp add: readSensors_co2 of_long_def)
  have lo: "300 \<le> map_long r 0 4095 300 10000"
    using assms by (simp add: eq pos_imp_zdiv_nonneg_iff)
  have "(r * 9700) div 4095 \<le> (4095 * 9700) div 4095"
    using assms by (intro zdiv_mono1) simp_all
  then have hi: "map_long r 0 4095 300 10000 \<le> 10000"
    by (simp add: eq)
  have mono: "map_long r' 0 4095 300 10000 \<le> map_long r 0 4095 300 10000"
    if "0 \<le> r' \<and> r' \<le> r"
  proof -
    have "map_long r' 0 4095 300 10000 = 300 + (r' * 9700) div 4095"
      using that assms by (intro map_long_adc) simp_all
    moreover have "(r' * 9700) div 4095 \<le> (r * 9700) div 4095"
      using that by (intro zdiv_mono1) simp_all
    ultimately show ?thesis by (simp add: eq)
  qed
  have line: "real_of_int (map_long r 0 4095 300 10000) \<le> 300 + 9700 * real_of_int r / 4095"
    "300 + 9700 * real_of_int r / 4095 < real_of_int (map_long r 0 4095 300 10000) + 1"
    using map_long_adc_line [OF assms] by (simp_all only: eq)
  have ends: "map_long 0 0 4095 300 10000 = 300" "map_long 4095 0 4095 300 10000 = 10000"
    by (simp_all add: map_long_adc)
  from eq doc lo hi mono line ends show ?thesis by blast
qed

theorem co2_mapping_witness:
  "(0::int) \<le> 2048 \<and> (2048::int) \<le> 4095 \<and> map_long 2048 0 4095 300 10000 = 5151
   \<and> readSensors \<lparr>mq135 = 2048, dht_temperature = Fin 25, dht_humidity = Fin 50,
        light_level = Fin 400, mic = 100\<rparr> Map.empty ''co2'' = Some (JFloat (Fin 5151))
   \<and> map_long 1000 0 4095 300 10000 \<le> map_long 2048 0 4095 300 10000"
  using co2_mapping [of 2048 "\<lparr>mq135 = 2048, dht_temperature = Fin 25, dht_humidity = Fin 50,
        light_level = Fin 400, mic = 100\<rparr>" Map.empty 1000]
  by simp

subsection \<open>The noise level\<close>

lemma calculateNoiseLevel_pos:
  assumes "0 < m"
  shows "calculateNoiseLevel m =
     Fin (max 30 (min 120 (20 * log 10 (real_of_int m * 3.3 / 4095 / 0.00631))))"
  using assms
  by (simp add: calculateNoiseLevel_def Let_def of_long_def constrain_def fgt_def max_def min_def)

lemma calculateNoiseLevel_zero: "calculateNoiseLevel 0 = Fin 30"
  by (simp add: calculateNoiseLevel_def Let_def of_long_def constrain_def fgt_def)

lemma calculateNoiseLevel_neg:
  assumes "m < 0"
  shows "calculateNoiseLevel m = NaN"
  using assms
  by (simp add: calculateNoiseLevel_def Let_def of_long_def constrain_def fgt_def
      divide_neg_pos mult_neg_pos)

lemma log10_huge: "6 < log 10 (real_of_int 10000000 * 3.3 / 4095 / 0.00631)"
proof -
  have "(10::real) ^ 6 < real_of_int 10000000 * 3.3 / 4095 / 0.00631" by simp
  then show ?thesis
    by (subst less_log_iff) (simp_all add: powr_numeral)
qed

text \<open>
  C6, as the claim states it: whatever the input, the returned value is never outside
  [30,120]. For a negative \<open>micValue\<close> the voltage is negative, \<^verbatim>\<open>log10\<close> of it is NaN,
  and \<open>constrain\<close> returns NaN unchanged, because both of its comparisons are false.
\<close>

theorem noise_nan_counterexample:
  "calculateNoiseLevel (- 1) = NaN
   \<and> \<not> (fle (Fin 30) (calculateNoiseLevel (- 1)) \<and> fle (calculateNoiseLevel (- 1)) (Fin 120))"
  by (simp add: calculateNoiseLevel_neg fle_def)

text \<open>
  C6, amended. For every raw reading whose voltage \<open>v = micValue * 3.3 / 4095\<close> is
  positive, \<open>calculateNoiseLevel\<close> returns \<open>20 * log10 (v / 0.00631)\<close> clamped to
  [30,120] (in exact arithmetic: rounding is not modelled); for every reading that is
  not negative, which is every value the ADC delivers, the result is in [30,120]; the
  reading 0 gives 30.
\<close>

theorem calculateNoiseLevel_clamped:
  "(0 < real_of_int micValue * 3.3 / 4095 \<longrightarrow>
      calculateNoiseLevel micValue =
        Fin (max 30 (min 120 (20 * log 10 (real_of_int micValue * 3.3 / 4095 / 0.00631)))))
   \<and> (0 \<le> micValue \<longrightarrow>
        fle (Fin 30) (calculateNoiseLevel micValue) \<and> fle (calculateNoiseLevel micValue) (Fin 120))
   \<and> calculateNoiseLevel 0 = Fin 30"
proof -
  have formula: "calculateNoiseLevel micValue =
        Fin (max 30 (min 120 (20 * log 10 (real_of_int micValue * 3.3 / 4095 / 0.00631))))"
    if "0 < real_of_int micValue * 3.3 / 4095"
  proof -
    from that have "0 < micValue" by (simp add: zero_less_mult_iff)
    then show ?thesis by (rule calculateNoiseLevel_pos)
  qed
  have range: "fle (Fin 30) (calculateNoiseLevel micValue) \<and> fle (calculateNoiseLevel micValue) (Fin 120)"
    if "0 \<le> micValue"
  proof (cases "micValue = 0")
    case True
    then show ?thesis by (simp add: calculateNoiseLevel_zero fle_def)
  next
    case False
    with that have "0 < micValue" by simp
    then show ?thesis by (simp add: calculateNoiseLevel_pos fle_def)
  qed
  from formula range calculateNoiseLevel_zero show ?thesis by blast
qed

theorem calculateNoiseLevel_clamped_witness:
  "0 < real_of_int 10000000 * 3.3 / 4095
   \<and> calculateNoiseLevel 10000000 = Fin 120
   \<and> (0::int) \<le> 4095
   \<and> fle (Fin 30) (calculateNoiseLevel 4095) \<and> fle (calculateNoiseLevel 4095) (Fin 120)"
proof -
  have v: "0 < real_of_int 10000000 * 3.3 / 4095" by simp
  from calculateNoiseLevel_clamped [of 10000000] v
  have "calculateNoiseLevel 10000000 =
      Fin (max 30 (min 120 (20 * log 10 (real_of_int 10000000 * 3.3 / 4095 / 0.00631))))"
    by blast
  moreover have "max 30 (min 120 (20 * log 10 (real_of_int 10000000 * 3.3 / 4095 / 0.00631))) = 120"
    using log10_huge by (simp add: min_def max_def)
  ultimately have loud: "calculateNoiseLevel 10000000 = Fin 120" by simp
  have r: "(0::int) \<le> 4095" by simp
  from calculateNoiseLevel_clamped [of 4095] r
  have "fle (Fin 30) (calculateNoiseLevel 4095) \<and> fle (calculateNoiseLevel 4095) (Fin 120)"
    by blast
  with v loud r show ?thesis by blast
qed

subsection \<open>Pins\<close>

lemma pins_distinct [simp]:
  "RELAY_FAN \<noteq> RELAY_LIGHT" "RELAY_FAN \<noteq> BUZZER_PIN" "RELAY_LIGHT \<noteq> BUZZER_PIN"
  "RELAY_LIGHT \<noteq> RELAY_FAN" "BUZZER_PIN \<noteq> RELAY_FAN" "BUZZER_PIN \<noteq> RELAY_LIGHT"
  by (simp_all add: RELAY_FAN_def RELAY_LIGHT_def BUZZER_PIN_def)

lemma pins_digitalWrite [simp]: "pins (digitalWrite p v s) q = (if q = p then v else pins s q)"
  by (simp add: digitalWrite_def)

lemma digitalWrite_fields [simp]:
  "modes (digitalWrite p v s) = modes s" "tones (digitalWrite p v s) = tones s"
  "delays (digitalWrite p v s) = delays s" "serial (digitalWrite p v s) = serial s"
  "lastPublish (digitalWrite p v s) = lastPublish s"
  "mqtt_connected (digitalWrite p v s) = mqtt_connected s"
  "mqtt_attempts (digitalWrite p v s) = mqtt_attempts s"
  "mqtt_subscriptions (digitalWrite p v s) = mqtt_subscriptions s"
  "mqtt_published (digitalWrite p v s) = mqtt_published s"
  "wifi_polls (digitalWrite p v s) = wifi_polls s"
  by (simp_all add: digitalWrite_def)

lemma controlDevices_error: "deserializeJson net message = Inl e \<Longrightarrow> controlDevices net message s = s"
  by (simp add: controlDevices_def)

lemma controlDevices_pins:
  assumes "deserializeJson net message = Inr doc"
  shows "pins (controlDevices net message s) RELAY_FAN =
           (case doc ''fan'' of None \<Rightarrow> pins s RELAY_FAN | Some v \<Rightarrow> if asBool v then LOW else HIGH)"
    and "pins (controlDevices net message s) RELAY_LIGHT =
           (case doc ''light'' of None \<Rightarrow> pins s RELAY_LIGHT | Some v \<Rightarrow> if asBool v then LOW else HIGH)"
    and "pins (controlDevices net message s) BUZZER_PIN =
           (case doc ''buzzer'' of None \<Rightarrow> pins s BUZZER_PIN | Some v \<Rightarrow> if asBool v then HIGH else LOW)"
  using assms
  by (auto simp add: controlDevices_def Let_def containsKey_def member_bool_def split: option.splits)

lemma controlDevices_other_pins:
  assumes "p \<noteq> RELAY_FAN" "p \<noteq> RELAY_LIGHT" "p \<noteq> BUZZER_PIN"
  shows "pins (controlDevices net message s) p = pins s p"
  using assms
  by (cases "deserializeJson net message") (simp_all add: controlDevices_def Let_def)

subsection \<open>Remote commands\<close>

text \<open>
  C3. When the parser accepts the payload, each of the keys \<^verbatim>\<open>fan\<close>, \<^verbatim>\<open>light\<close>, \<^verbatim>\<open>buzzer\<close>
  that the document contains sets its actuator, on exactly when the value is truthy, and
  each key that is absent leaves the pin of its actuator as it was. When the parser
  reports an error the device is left exactly as it was: no pin changes, and nothing is
  reported (the function returns no value, and no output of any kind is made).
\<close>

theorem controlDevices_command:
  "(deserializeJson net message = Inr doc \<longrightarrow>
       (\<forall>v. doc ''fan'' = Some v \<longrightarrow> fan_on (controlDevices net message s) = asBool v)
     \<and> (doc ''fan'' = None \<longrightarrow> pins (controlDevices net message s) RELAY_FAN = pins s RELAY_FAN)
     \<and> (\<forall>v. doc ''light'' = Some v \<longrightarrow> light_on (controlDevices net message s) = asBool v)
     \<and> (doc ''light'' = None \<longrightarrow> pins (controlDevices net message s) RELAY_LIGHT = pins s RELAY_LIGHT)
     \<and> (\<forall>v. doc ''buzzer'' = Some v \<longrightarrow> buzzer_on (controlDevices net message s) = asBool v)
     \<and> (doc ''buzzer'' = None \<longrightarrow> pins (controlDevices net message s) BUZZER_PIN = pins s BUZZER_PIN))
   \<and> (\<forall>e. deserializeJson net message = Inl e \<longrightarrow> controlDevices net message s = s)"
  by (auto simp add: controlDevices_pins controlDevices_error fan_on_def light_on_def buzzer_on_def)

theorem controlDevices_command_witness:
  \<open>deserializeJson lab_network ''{"fan": true}'' = Inr [''fan'' \<mapsto> JBool True]
   \<and> fan_on (controlDevices lab_network ''{"fan": true}'' power_on)
   \<and> pins (controlDevices lab_network ''{"fan": true}'' power_on) RELAY_LIGHT = pins power_on RELAY_LIGHT
   \<and> pins (controlDevices lab_network ''{"fan": true}'' power_on) BUZZER_PIN = pins power_on BUZZER_PIN
   \<and> deserializeJson lab_network ''{"buzzer": 1, "light": false}''
        = Inr [''buzzer'' \<mapsto> JInt 1, ''light'' \<mapsto> JBool False]
   \<and> buzzer_on (controlDevices lab_network ''{"buzzer": 1, "light": false}'' power_on)
   \<and> \<not> light_on (controlDevices lab_network ''{"buzzer": 1, "light": false}'' power_on)
   \<and> pins (controlDevices lab_network ''{"buzzer": 1, "light": false}'' power_on) RELAY_FAN
        = pins power_on RELAY_FAN
   \<and> deserializeJson lab_network ''{fan: '' = Inl InvalidInput
   \<and> controlDevices lab_network ''{fan: '' power_on = power_on\<close>
proof -
  have ok: \<open>deserializeJson lab_network ''{"fan": true}'' = Inr [''fan'' \<mapsto> JBool True]\<close>
    by (simp add: lab_network_def)
  have two: \<open>deserializeJson lab_network ''{"buzzer": 1, "light": false}''
        = Inr [''buzzer'' \<mapsto> JInt 1, ''light'' \<mapsto> JBool False]\<close>
    by (simp add: lab_network_def)
  have bad: \<open>deserializeJson lab_network ''{fan: '' = Inl InvalidInput\<close>
    by (simp add: lab_network_def)
  from controlDevices_command [of lab_network \<open>''{"fan": true}''\<close> \<open>[''fan'' \<mapsto> JBool True]\<close> power_on] ok
  have first: \<open>fan_on (controlDevices lab_network ''{"fan": true}'' power_on)\<close>
    \<open>pins (controlDevices lab_network ''{"fan": true}'' power_on) RELAY_LIGHT = pins power_on RELAY_LIGHT\<close>
    \<open>pins (controlDevices lab_network ''{"fan": true}'' power_on) BUZZER_PIN = pins power_on BUZZER_PIN\<close>
    by simp_all
  from controlDevices_command [of lab_network \<open>''{"buzzer": 1, "light": false}''\<close>
      \<open>[''buzzer'' \<mapsto> JInt 1, ''light'' \<mapsto> JBool False]\<close> power_on] two
  have second: \<open>buzzer_on (controlDevices lab_network ''{"buzzer": 1, "light": false}'' power_on)\<close>
    \<open>\<not> light_on (controlDevices lab_network ''{"buzzer": 1, "light": false}'' power_on)\<close>
    \<open>pins (controlDevices lab_network ''{"buzzer": 1, "light": false}'' power_on) RELAY_FAN
        = pins power_on RELAY_FAN\<close>
    by simp_all
  from controlDevices_command [of lab_network \<open>''{fan: ''\<close> Map.empty power_on] bad
  have third: \<open>controlDevices lab_network ''{fan: '' power_on = power_on\<close>
    by simp
  from ok two bad first second third show ?thesis by simp
qed

subsection \<open>Start-up\<close>

lemma pins_Serial_print [simp]: "pins (Serial_print x s) = pins s"
  by (simp add: Serial_print_def)

lemma pins_delay [simp]: "pins (delay ms s) = pins s"
  by (simp add: delay_def)

lemma pins_pinMode [simp]: "pins (pinMode p m s) = pins s"
  by (simp add: pinMode_def)

lemma pins_tone [simp]: "pins (tone p f d s) = pins s"
  by (simp add: tone_def)

lemma wifi_wait_pins:
  assumes "wifi_wait net s = Some s'"
  shows "pins s' = pins s"
  by (rule wifi_wait.raw_induct [where P = "\<lambda>net s s'. pins s' = pins s", OF _ assms])
     (auto simp add: Let_def split: if_splits)

lemma connectMQTT_pins:
  assumes "connectMQTT net s = Some s'"
  shows "pins s' = pins s"
  by (rule connectMQTT.raw_induct [where P = "\<lambda>net s s'. pins s' = pins s", OF _ assms])
     (auto simp add: Let_def split: if_splits)

lemma setup_esp32_pins:
  assumes "setup_esp32 net s = Some s'"
  shows "pins s' = pins (setup_pins s)"
proof -
  from assms obtain t where t: "wifi_wait net (setup_pins s) = Some t"
    and c: "connectMQTT net (Serial_print (Text ''WiFi connected'') t) = Some s'"
    by (auto simp add: setup_esp32_def split: bind_splits)
  from c have "pins s' = pins t" by (simp add: connectMQTT_pins)
  with t show ?thesis by (simp add: wifi_wait_pins)
qed

lemma setup_pins_levels:
  "pins (setup_pins s) RELAY_FAN = HIGH" "pins (setup_pins s) RELAY_LIGHT = HIGH"
  "pins (setup_pins s) BUZZER_PIN = LOW"
  by (simp_all add: setup_pins_def Let_def)

lemma lab_network_simps [simp]:
  "wifi_up lab_network n = (2 \<le> n)" "connect_result lab_network n = (2 \<le> n)"
  "client_state lab_network n = (if 2 \<le> n then 0 else - 2)"
  "random_value lab_network n = 4660 + n"
  by (simp_all add: lab_network_def)

lemma setup_lab: "setup_esp32 lab_network power_on \<noteq> None"
  by (simp add: setup_esp32_def wifi_wait.simps connectMQTT.simps power_on_def setup_pins_def
      Let_def pinMode_def digitalWrite_def Serial_print_def delay_def)

text \<open>
  C10. A remote command that switches an actuator on drives the fan and the light relay
  pins LOW and the buzzer pin HIGH, and one that switches it off drives them the other
  way: the buzzer's polarity is the opposite of the relays'. This agrees with start-up,
  where \<^verbatim>\<open>setup\<close> writes HIGH to both relay pins and LOW to the buzzer pin, all three
  off, and the pins still have these levels whenever \<^verbatim>\<open>setup\<close> returns.
\<close>

theorem actuator_polarity:
  "(deserializeJson net message = Inr doc \<longrightarrow>
       (\<forall>v. doc ''fan'' = Some v \<longrightarrow>
            pins (controlDevices net message s) RELAY_FAN = (if asBool v then LOW else HIGH))
     \<and> (\<forall>v. doc ''light'' = Some v \<longrightarrow>
            pins (controlDevices net message s) RELAY_LIGHT = (if asBool v then LOW else HIGH))
     \<and> (\<forall>v. doc ''buzzer'' = Some v \<longrightarrow>
            pins (controlDevices net message s) BUZZER_PIN = (if asBool v then HIGH else LOW)))
   \<and> pins (setup_pins s) RELAY_FAN = HIGH
   \<and> pins (setup_pins s) RELAY_LIGHT = HIGH
   \<and> pins (setup_pins s) BUZZER_PIN = LOW
   \<and> (\<forall>s'. setup_esp32 net s = Some s' \<longrightarrow>
          pins s' RELAY_FAN = HIGH \<and> pins s' RELAY_LIGHT = HIGH \<and> pins s' BUZZER_PIN = LOW)"
  by (auto simp add: controlDevices_pins setup_pins_levels setup_esp32_pins)

theorem actuator_polarity_witness:
  \<open>setup_esp32 lab_network power_on \<noteq> None
   \<and> pins (the (setup_esp32 lab_network power_on)) RELAY_FAN = HIGH
   \<and> pins (the (setup_esp32 lab_network power_on)) RELAY_LIGHT = HIGH
   \<and> pins (the (setup_esp32 lab_network power_on)) BUZZER_PIN = LOW
   \<and> deserializeJson lab_network ''{"buzzer": 1, "light": false}''
        = Inr [''buzzer'' \<mapsto> JInt 1, ''light'' \<mapsto> JBool False]
   \<and> pins (controlDevices lab_network ''{"buzzer": 1, "light": false}'' (setup_pins power_on))
        BUZZER_PIN = HIGH
   \<and> pins (controlDevices lab_network ''{"buzzer": 1, "light": false}'' (setup_pins power_on))
        RELAY_LIGHT = HIGH
   \<and> deserializeJson lab_network ''{"fan": true}'' = Inr [''fan'' \<mapsto> JBool True]
   \<and> pins (controlDevices lab_network ''{"fan": true}'' (setup_pins power_on)) RELAY_FAN = LOW\<close>
proof -
  obtain s' where s': "setup_esp32 lab_network power_on = Some s'"
    using setup_lab by blast
  have d1: \<open>deserializeJson lab_network ''{"buzzer": 1, "light": false}''
        = Inr [''buzzer'' \<mapsto> JInt 1, ''light'' \<mapsto> JBool False]\<close>
    by (simp add: lab_network_def)
  have d2: \<open>deserializeJson lab_network ''{"fan": true}'' = Inr [''fan'' \<mapsto> JBool True]\<close>
    by (simp add: lab_network_def)
  from actuator_polarity [of lab_network \<open>''{"buzzer": 1, "light": false}''\<close>
      \<open>[''buzzer'' \<mapsto> JInt 1, ''light'' \<mapsto> JBool False]\<close> \<open>setup_pins power_on\<close>] d1
  have c1: \<open>pins (controlDevices lab_network ''{"buzzer": 1, "light": false}'' (setup_pins power_on))
        BUZZER_PIN = HIGH\<close>
    \<open>pins (controlDevices lab_network ''{"buzzer": 1, "light": false}'' (setup_pins power_on))
        RELAY_LIGHT = HIGH\<close>
    by simp_all
  from actuator_polarity [of lab_network \<open>''{"fan": true}''\<close>
      \<open>[''fan'' \<mapsto> JBool True]\<close> \<open>setup_pins power_on\<close>] d2
  have c2: \<open>pins (controlDevices lab_network ''{"fan": true}'' (setup_pins power_on)) RELAY_FAN = LOW\<close>
    by simp
  from actuator_polarity [of lab_network \<open>[]\<close> Map.empty power_on] s'
  have c3: "pins s' RELAY_FAN = HIGH \<and> pins s' RELAY_LIGHT = HIGH \<and> pins s' BUZZER_PIN = LOW"
    by blast
  from s' c3 c1 c2 d1 d2 show ?thesis by simp
qed

subsection \<open>The broker connection\<close>

lemma connectMQTT_connected: "mqtt_connected s \<Longrightarrow> connectMQTT net s = Some s"
  by (subst connectMQTT.simps) simp

lemma connectMQTT_success:
  assumes "\<not> mqtt_connected s" "connect_result net (length (mqtt_attempts s))"
  shows "connectMQTT net s =
     Some (Serial_print (Text ''MQTT connected!'')
       (s\<lparr>mqtt_attempts := mqtt_attempts s @
              [mqtt_client_id @ String_HEX (random net (length (mqtt_attempts s)) 0xffff)],
          mqtt_connected := True,
          mqtt_subscriptions := mqtt_subscriptions s @ [mqtt_topic_subscribe]\<rparr>))"
  using assms
  by (subst connectMQTT.simps) (simp add: Let_def connectMQTT_connected Serial_print_def)

lemma connectMQTT_failure:
  assumes "\<not> mqtt_connected s" "\<not> connect_result net (length (mqtt_attempts s))"
  shows "connectMQTT net s =
     connectMQTT net
       (delay 2000
         (Serial_print (Number (client_state net (length (mqtt_attempts s))))
           (Serial_print (Text ''MQTT connection failed, rc='')
             (s\<lparr>mqtt_attempts := mqtt_attempts s @
                [mqtt_client_id @ String_HEX (random net (length (mqtt_attempts s)) 0xffff)]\<rparr>))))"
  using assms
  by (subst connectMQTT.simps) (simp add: Let_def)

lemma connectMQTT_after_failures:
  assumes "\<not> mqtt_connected s"
    and "\<forall>i<k. \<not> connect_result net (length (mqtt_attempts s) + i)"
    and "connect_result net (length (mqtt_attempts s) + k)"
  shows "\<exists>s'. connectMQTT net s = Some s'
      \<and> mqtt_connected s'
      \<and> mqtt_subscriptions s' = mqtt_subscriptions s @ [mqtt_topic_subscribe]
      \<and> delays s' = delays s @ replicate k 2000
      \<and> mqtt_attempts s' = mqtt_attempts s @
           map (\<lambda>j. mqtt_client_id @ String_HEX (random net j 0xffff))
             [length (mqtt_attempts s)..<Suc (length (mqtt_attempts s) + k)]
      \<and> pins s' = pins s \<and> tones s' = tones s \<and> lastPublish s' = lastPublish s
      \<and> mqtt_published s' = mqtt_published s"
  using assms
proof (induction k arbitrary: s)
  case 0
  then show ?case
    by (simp add: connectMQTT_success Serial_print_def)
next
  case (Suc k)
  let ?n = "length (mqtt_attempts s)"
  let ?t = "delay 2000
         (Serial_print (Number (client_state net ?n))
           (Serial_print (Text ''MQTT connection failed, rc='')
             (s\<lparr>mqtt_attempts := mqtt_attempts s @
                [mqtt_client_id @ String_HEX (random net ?n 0xffff)]\<rparr>)))"
  from Suc.prems have first: "\<not> connect_result net ?n"
    by (metis add.right_neutral zero_less_Suc)
  with Suc.prems have step: "connectMQTT net s = connectMQTT net ?t"
    by (simp add: connectMQTT_failure)
  have t: "\<not> mqtt_connected ?t" "length (mqtt_attempts ?t) = Suc ?n"
    "mqtt_subscriptions ?t = mqtt_subscriptions s" "delays ?t = delays s @ [2000]"
    "mqtt_attempts ?t = mqtt_attempts s @ [mqtt_client_id @ String_HEX (random net ?n 0xffff)]"
    "pins ?t = pins s" "tones ?t = tones s" "lastPublish ?t = lastPublish s"
    "mqtt_published ?t = mqtt_published s"
    using Suc.prems by (simp_all add: delay_def Serial_print_def)
  have later: "\<forall>i<k. \<not> connect_result net (length (mqtt_attempts ?t) + i)"
    using Suc.prems(2) t(2) by (metis Suc_less_eq add_Suc_shift)
  have last: "connect_result net (length (mqtt_attempts ?t) + k)"
    using Suc.prems(3) t(2) by simp
  from Suc.IH [OF t(1) later last] obtain s' where s': "connectMQTT net ?t = Some s'"
    "mqtt_connected s'"
    "mqtt_subscriptions s' = mqtt_subscriptions ?t @ [mqtt_topic_subscribe]"
    "delays s' = delays ?t @ replicate k 2000"
    "mqtt_attempts s' = mqtt_attempts ?t @
           map (\<lambda>j. mqtt_client_id @ String_HEX (random net j 0xffff))
             [length (mqtt_attempts ?t)..<Suc (length (mqtt_attempts ?t) + k)]"
    "pins s' = pins ?t" "tones s' = tones ?t" "lastPublish s' = lastPublish ?t"
    "mqtt_published s' = mqtt_published ?t"
    by blast
  have range: "[?n..<Suc (?n + Suc k)] = ?n # [Suc ?n..<Suc (Suc ?n + k)]"
    using upt_conv_Cons [of ?n "Suc (?n + Suc k)"] by (simp del: upt_Suc)
  have "mqtt_attempts s' = mqtt_attempts ?t @
           map (\<lambda>j. mqtt_client_id @ String_HEX (random net j 0xffff))
             [Suc ?n..<Suc (Suc ?n + k)]"
    using s'(5) by (simp only: t(2))
  then have ids: "mqtt_attempts s' = mqtt_attempts s @
           map (\<lambda>j. mqtt_client_id @ String_HEX (random net j 0xffff)) [?n..<Suc (?n + Suc k)]"
    by (simp only: t(5) range list.map append_assoc append_Cons append_Nil)
  have waits: "delays s' = delays s @ replicate (Suc k) 2000"
    by (simp only: s'(4) t(4)) (simp add: replicate_append_same)
  from step s' t ids waits show ?case
    by simp
qed

lemma connectMQTT_needs_success:
  assumes "connectMQTT net s = Some s'"
  shows "mqtt_connected s \<or> (\<exists>k. connect_result net (length (mqtt_attempts s) + k))"
proof (rule connectMQTT.raw_induct [where
      P = "\<lambda>net s s'. mqtt_connected s \<or> (\<exists>k. connect_result net (length (mqtt_attempts s) + k))",
      OF _ assms])
  fix f :: "network \<Rightarrow> device \<Rightarrow> device option" and net :: network and s s' :: device
  assume IH: "\<And>net s s'. f net s = Some s' \<Longrightarrow>
      mqtt_connected s \<or> (\<exists>k. connect_result net (length (mqtt_attempts s) + k))"
  assume body: "(if \<not> mqtt_connected s
      then let n = length (mqtt_attempts s);
               clientId = mqtt_client_id @ String_HEX (random net n 0xffff);
               s = s\<lparr>mqtt_attempts := mqtt_attempts s @ [clientId]\<rparr>
           in if connect_result net n
              then f net (Serial_print (Text ''MQTT connected!'')
                      (s\<lparr>mqtt_connected := True,
                         mqtt_subscriptions := mqtt_subscriptions s @ [mqtt_topic_subscribe]\<rparr>))
              else f net (delay 2000
                        (Serial_print (Number (client_state net n))
                          (Serial_print (Text ''MQTT connection failed, rc='') s)))
      else Some s) = Some s'"
  show "mqtt_connected s \<or> (\<exists>k. connect_result net (length (mqtt_attempts s) + k))"
  proof (cases "mqtt_connected s \<or> connect_result net (length (mqtt_attempts s))")
    case True
    then show ?thesis by (metis add.right_neutral)
  next
    case False
    let ?t = "delay 2000
         (Serial_print (Number (client_state net (length (mqtt_attempts s))))
           (Serial_print (Text ''MQTT connection failed, rc='')
             (s\<lparr>mqtt_attempts := mqtt_attempts s @
                [mqtt_client_id @ String_HEX (random net (length (mqtt_attempts s)) 0xffff)]\<rparr>)))"
    from False body have "f net ?t = Some s'"
      by (simp add: Let_def)
    from IH [OF this] have "\<exists>k. connect_result net (length (mqtt_attempts ?t) + k)"
      using False by (simp add: delay_def Serial_print_def)
    then obtain k where "connect_result net (Suc (length (mqtt_attempts s)) + k)"
      by (auto simp add: delay_def Serial_print_def)
    then have "connect_result net (length (mqtt_attempts s) + Suc k)"
      by simp
    then show ?thesis by blast
  qed
qed

lemma connectMQTT_never:
  assumes "\<not> mqtt_connected s" "\<forall>k. \<not> connect_result net (length (mqtt_attempts s) + k)"
  shows "connectMQTT net s = None"
proof (cases "connectMQTT net s")
  case None
  then show ?thesis .
next
  case (Some s')
  from connectMQTT_needs_success [OF this] assms show ?thesis by blast
qed

lemma loop_blocks:
  assumes "\<not> mqtt_connected s" "connectMQTT net s = None"
  shows "loop net c s = None"
  using assms by (simp add: loop_def)

lemma random_lab [simp]: "random lab_network n 65535 = (4660 + n) mod 65535"
  by (simp add: random_def)

lemma String_HEX_examples:
  "String_HEX 4660 = ''1234''" "String_HEX 4661 = ''1235''" "String_HEX 4662 = ''1236''"
  by (simp_all add: String_HEX.simps hex_digit_def)

text \<open>
  C9. With the connection up, \<open>connectMQTT\<close> returns at once. With the connection down
  it loops: every pass draws a random number, builds a client identifier from it and
  calls \<^verbatim>\<open>connect\<close>; a failed pass waits 2000 ms and the loop goes on, whatever the number
  of failures so far. If the first success is the attempt after \<open>k\<close> failures, the call
  returns connected, having made \<open>k + 1\<close> attempts, each with its own identifier, waited
  \<open>k\<close> times 2000 ms, and subscribed to the command topic. If no attempt ever succeeds
  the call never returns, and neither does the pass of \<^verbatim>\<open>loop\<close> that made it. Whenever the
  call returns, it has done so after a successful attempt.
\<close>

theorem connectMQTT_retry:
  "(mqtt_connected s \<longrightarrow> connectMQTT net s = Some s)
   \<and> (\<not> mqtt_connected s \<longrightarrow>
        ((\<forall>i<k. \<not> connect_result net (length (mqtt_attempts s) + i))
           \<and> connect_result net (length (mqtt_attempts s) + k) \<longrightarrow>
           (\<exists>s'. connectMQTT net s = Some s'
              \<and> mqtt_connected s'
              \<and> mqtt_subscriptions s' = mqtt_subscriptions s @ [mqtt_topic_subscribe]
              \<and> delays s' = delays s @ replicate k 2000
              \<and> mqtt_attempts s' = mqtt_attempts s @
                   map (\<lambda>j. mqtt_client_id @ String_HEX (random net j 0xffff))
                     [length (mqtt_attempts s)..<Suc (length (mqtt_attempts s) + k)]))
      \<and> ((\<forall>i. \<not> connect_result net (length (mqtt_attempts s) + i)) \<longrightarrow>
           connectMQTT net s = None \<and> loop net c s = None)
      \<and> (\<forall>s'. connectMQTT net s = Some s' \<longrightarrow>
           mqtt_connected s'
           \<and> (\<exists>n. connect_result net (length (mqtt_attempts s) + n)
                \<and> (\<forall>i<n. \<not> connect_result net (length (mqtt_attempts s) + i))
                \<and> length (mqtt_attempts s') = length (mqtt_attempts s) + n + 1
                \<and> delays s' = delays s @ replicate n 2000
                \<and> mqtt_subscriptions s' = mqtt_subscriptions s @ [mqtt_topic_subscribe])))"
proof -
  have up: "connectMQTT net s = Some s" if "mqtt_connected s"
    using that by (rule connectMQTT_connected)
  have eventually: "\<exists>s'. connectMQTT net s = Some s'
              \<and> mqtt_connected s'
              \<and> mqtt_subscriptions s' = mqtt_subscriptions s @ [mqtt_topic_subscribe]
              \<and> delays s' = delays s @ replicate k 2000
              \<and> mqtt_attempts s' = mqtt_attempts s @
                   map (\<lambda>j. mqtt_client_id @ String_HEX (random net j 0xffff))
                     [length (mqtt_attempts s)..<Suc (length (mqtt_attempts s) + k)]"
    if "\<not> mqtt_connected s"
      "(\<forall>i<k. \<not> connect_result net (length (mqtt_attempts s) + i))
           \<and> connect_result net (length (mqtt_attempts s) + k)"
    using connectMQTT_after_failures [of s k net] that by blast
  have never: "connectMQTT net s = None \<and> loop net c s = None"
    if "\<not> mqtt_connected s" "\<forall>i. \<not> connect_result net (length (mqtt_attempts s) + i)"
    using that by (simp add: connectMQTT_never loop_blocks)
  have only: "mqtt_connected s'
           \<and> (\<exists>n. connect_result net (length (mqtt_attempts s) + n)
                \<and> (\<forall>i<n. \<not> connect_result net (length (mqtt_attempts s) + i))
                \<and> length (mqtt_attempts s') = length (mqtt_attempts s) + n + 1
                \<and> delays s' = delays s @ replicate n 2000
                \<and> mqtt_subscriptions s' = mqtt_subscriptions s @ [mqtt_topic_subscribe])"
    if down: "\<not> mqtt_connected s" and ret: "connectMQTT net s = Some s'" for s'
  proof -
    from connectMQTT_needs_success [OF ret] down
    have "\<exists>n. connect_result net (length (mqtt_attempts s) + n)" by blast
    then obtain n where n: "connect_result net (length (mqtt_attempts s) + n)"
      "\<forall>i<n. \<not> connect_result net (length (mqtt_attempts s) + i)"
      using exists_least_iff [of "\<lambda>n. connect_result net (length (mqtt_attempts s) + n)"]
      by blast
    from connectMQTT_after_failures [OF down n(2) n(1)] ret
    have "mqtt_connected s'"
      "mqtt_subscriptions s' = mqtt_subscriptions s @ [mqtt_topic_subscribe]"
      "delays s' = delays s @ replicate n 2000"
      "mqtt_attempts s' = mqtt_attempts s @
           map (\<lambda>j. mqtt_client_id @ String_HEX (random net j 0xffff))
             [length (mqtt_attempts s)..<Suc (length (mqtt_attempts s) + n)]"
      by auto
    moreover from this(4) have "length (mqtt_attempts s') = length (mqtt_attempts s) + n + 1"
      by (simp del: upt_Suc)
    ultimately show ?thesis using n by blast
  qed
  from up eventually never only show ?thesis by blast
qed

theorem connectMQTT_retry_witness:
  "\<not> mqtt_connected power_on
   \<and> \<not> connect_result lab_network (length (mqtt_attempts power_on) + 0)
   \<and> \<not> connect_result lab_network (length (mqtt_attempts power_on) + 1)
   \<and> connect_result lab_network (length (mqtt_attempts power_on) + 2)
   \<and> connectMQTT lab_network power_on \<noteq> None
   \<and> mqtt_connected (the (connectMQTT lab_network power_on))
   \<and> mqtt_subscriptions (the (connectMQTT lab_network power_on)) = [''classguard/control'']
   \<and> delays (the (connectMQTT lab_network power_on)) = [2000, 2000]
   \<and> mqtt_attempts (the (connectMQTT lab_network power_on)) =
        [''ESP32_CLASSGUARD_1234'', ''ESP32_CLASSGUARD_1235'', ''ESP32_CLASSGUARD_1236'']
   \<and> connectMQTT (lab_network\<lparr>connect_result := \<lambda>n. False\<rparr>) power_on = None"
proof -
  have down: "\<not> mqtt_connected power_on" and fresh: "mqtt_attempts power_on = []"
    "mqtt_subscriptions power_on = []" "delays power_on = []"
    by (simp_all add: power_on_def)
  have fails: "\<forall>i<2. \<not> connect_result lab_network (length (mqtt_attempts power_on) + i)"
    by (simp add: fresh)
  have third: "connect_result lab_network (length (mqtt_attempts power_on) + 2)"
    by (simp add: fresh)
  from connectMQTT_retry [of power_on lab_network 2] down fails third
  obtain s' where s': "connectMQTT lab_network power_on = Some s'" "mqtt_connected s'"
    "mqtt_subscriptions s' = mqtt_subscriptions power_on @ [mqtt_topic_subscribe]"
    "delays s' = delays power_on @ replicate 2 2000"
    "mqtt_attempts s' = mqtt_attempts power_on @
       map (\<lambda>j. mqtt_client_id @ String_HEX (random lab_network j 0xffff))
         [length (mqtt_attempts power_on)..<Suc (length (mqtt_attempts power_on) + 2)]"
    by blast
  have "[0..<Suc 2] = [0, 1, 2]"
    by (simp add: upt_rec)
  with s'(5) have ids: "mqtt_attempts s' =
      [''ESP32_CLASSGUARD_1234'', ''ESP32_CLASSGUARD_1235'', ''ESP32_CLASSGUARD_1236'']"
    by (simp add: fresh String_HEX_examples mqtt_client_id_def)
  have waits: "delays s' = [2000, 2000]"
    using s'(4) by (simp add: fresh numeral_2_eq_2)
  have subs: "mqtt_subscriptions s' = [''classguard/control'']"
    using s'(3) by (simp add: fresh mqtt_topic_subscribe_def)
  have dead: "connectMQTT (lab_network\<lparr>connect_result := \<lambda>n. False\<rparr>) power_on = None"
    using connectMQTT_retry [of power_on "lab_network\<lparr>connect_result := \<lambda>n. False\<rparr>"] down
    by simp
  from down third s'(1,2) ids waits subs dead show ?thesis by (simp add: fresh)
qed

subsection \<open>One pass of the main loop\<close>

lemma connectMQTT_keeps:
  assumes "connectMQTT net s = Some s'"
  shows "lastPublish s' = lastPublish s \<and> mqtt_published s' = mqtt_published s \<and> tones s' = tones s"
  by (rule connectMQTT.raw_induct [where
        P = "\<lambda>net s s'. lastPublish s' = lastPublish s \<and> mqtt_published s' = mqtt_published s
               \<and> tones s' = tones s", OF _ assms])
     (auto simp add: Let_def Serial_print_def delay_def split: if_splits)

lemma connectMQTT_returns:
  assumes "mqtt_connected s \<or> (\<exists>k. connect_result net (length (mqtt_attempts s) + k))"
  shows "\<exists>t. connectMQTT net s = Some t \<and> mqtt_connected t"
proof (cases "mqtt_connected s")
  case True
  then show ?thesis by (simp add: connectMQTT_connected)
next
  case False
  with assms have "\<exists>k. connect_result net (length (mqtt_attempts s) + k)" by blast
  then obtain k where "connect_result net (length (mqtt_attempts s) + k)"
    "\<forall>i<k. \<not> connect_result net (length (mqtt_attempts s) + i)"
    using exists_least_iff [of "\<lambda>k. connect_result net (length (mqtt_attempts s) + k)"]
    by blast
  from connectMQTT_after_failures [OF False this(2) this(1)] show ?thesis by blast
qed

lemma controlDevices_keeps [simp]:
  "lastPublish (controlDevices net message s) = lastPublish s"
  "mqtt_published (controlDevices net message s) = mqtt_published s"
  "mqtt_connected (controlDevices net message s) = mqtt_connected s"
  "tones (controlDevices net message s) = tones s"
  by (cases "deserializeJson net message"; simp add: controlDevices_def Let_def)+

lemma autoControlDevices_keeps [simp]:
  "lastPublish (autoControlDevices sn s) = lastPublish s"
  "mqtt_published (autoControlDevices sn s) = mqtt_published s"
  "mqtt_connected (autoControlDevices sn s) = mqtt_connected s"
  by (simp_all add: autoControlDevices_def Let_def tone_def)

lemma delay_keeps [simp]:
  "lastPublish (delay ms s) = lastPublish s" "mqtt_published (delay ms s) = mqtt_published s"
  "mqtt_connected (delay ms s) = mqtt_connected s" "tones (delay ms s) = tones s"
  by (simp_all add: delay_def)

lemma publishSensorData_fields [simp]:
  "mqtt_published (publishSensorData c s) = mqtt_published s @
     [(mqtt_topic_publish,
       (readSensors (snapshot_sensors c) Map.empty)
         (''timestamp'' \<mapsto> JInt (uint (timestamp c)), ''device_id'' \<mapsto> JString mqtt_client_id),
       publish_result c)]"
  "lastPublish (publishSensorData c s) = lastPublish s"
  "mqtt_connected (publishSensorData c s) = mqtt_connected s"
  "pins (publishSensorData c s) = pins s"
  "tones (publishSensorData c s) = tones s"
  by (simp_all add: publishSensorData_def Let_def Serial_print_def)

lemma loop_result:
  assumes "loop net c s = Some s'"
  obtains t where "connectMQTT net s = Some t"
    and "s' = delay 100 (autoControlDevices (control_sensors c)
          (if 5000 \<le> now c - lastPublish s
           then (publishSensorData c
                   (case inbound c of None \<Rightarrow> t | Some message \<Rightarrow> controlDevices net message t))
                 \<lparr>lastPublish := now c\<rparr>
           else (case inbound c of None \<Rightarrow> t | Some message \<Rightarrow> controlDevices net message t)))"
proof (cases "mqtt_connected s")
  case True
  have "lastPublish (case inbound c of None \<Rightarrow> s | Some message \<Rightarrow> controlDevices net message s)
      = lastPublish s"
    by (cases "inbound c") simp_all
  with True assms that [of s] show ?thesis
    by (simp add: loop_def connectMQTT_connected publishInterval_def)
next
  case False
  with assms obtain t where t: "connectMQTT net s = Some t"
    by (auto simp add: loop_def split: bind_splits)
  have "lastPublish (case inbound c of None \<Rightarrow> t | Some message \<Rightarrow> controlDevices net message t)
      = lastPublish s"
    using connectMQTT_keeps [OF t] by (cases "inbound c") simp_all
  with False assms t that [of t] show ?thesis
    by (simp add: loop_def publishInterval_def)
qed

lemma loop_returns:
  assumes "mqtt_connected s \<or> (\<exists>k. connect_result net (length (mqtt_attempts s) + k))"
  shows "loop net c s \<noteq> None"
proof -
  from connectMQTT_returns [OF assms] obtain t where "connectMQTT net s = Some t" by blast
  then show ?thesis
    by (cases "mqtt_connected s") (simp_all add: loop_def)
qed

lemma elapsed_wraps:
  fixes last :: "32 word"
  assumes "5000 \<le> last + of_nat elapsed - last"
  shows "5000 \<le> elapsed"
proof -
  from assms have "(5000 :: 32 word) \<le> of_nat elapsed" by simp
  then have "unat (5000 :: 32 word) \<le> unat (of_nat elapsed :: 32 word)"
    by (simp add: word_le_nat_alt)
  also have "unat (of_nat elapsed :: 32 word) \<le> elapsed"
    by (simp add: unat_of_nat)
  finally show ?thesis by simp
qed

lemma lab_cycle_simps [simp]:
  "now lab_cycle = 6000" "publish_result lab_cycle = False"
  "control_sensors lab_cycle = \<lparr>mq135 = 2048, dht_temperature = Fin 36, dht_humidity = Fin 85,
       light_level = Fin 250, mic = 10000000\<rparr>"
  "snapshot_sensors lab_cycle = \<lparr>mq135 = 2048, dht_temperature = NaN, dht_humidity = Fin 85,
       light_level = Fin 250, mic = 4095\<rparr>"
  by (simp_all add: lab_cycle_def)

lemma lab_connects: "connect_result lab_network (length (mqtt_attempts s) + 2)"
  by simp

text \<open>
  C8. A pass of \<^verbatim>\<open>loop()\<close> returns whenever the connection is up or some connect
  attempt succeeds. In a pass that returns, a snapshot is built and handed to
  \<^verbatim>\<open>mqttClient.publish\<close> exactly when \<open>now - lastPublish\<close>, in 32-bit unsigned
  arithmetic, is at least 5000; it is handed over once, and \<open>lastPublish\<close> becomes \<open>now\<close>
  whether the broker took it or not. Otherwise nothing is published and \<open>lastPublish\<close>
  stays. So a pass that publishes runs at least 5000 ms after the value of
  \<open>lastPublish\<close>, the time of the previous attempt.
\<close>

theorem publish_gate:
  "(mqtt_connected s \<or> (\<exists>k. connect_result net (length (mqtt_attempts s) + k))
      \<longrightarrow> loop net c s \<noteq> None)
   \<and> (\<forall>s'. loop net c s = Some s' \<longrightarrow>
        (5000 \<le> now c - lastPublish s \<longrightarrow>
            mqtt_published s' = mqtt_published s @
              [(mqtt_topic_publish,
                (readSensors (snapshot_sensors c) Map.empty)
                  (''timestamp'' \<mapsto> JInt (uint (timestamp c)),
                   ''device_id'' \<mapsto> JString mqtt_client_id),
                publish_result c)]
          \<and> lastPublish s' = now c)
      \<and> (now c - lastPublish s < 5000 \<longrightarrow>
            mqtt_published s' = mqtt_published s \<and> lastPublish s' = lastPublish s)
      \<and> (\<forall>elapsed. now c = lastPublish s + of_nat elapsed
            \<and> mqtt_published s' \<noteq> mqtt_published s \<longrightarrow> 5000 \<le> elapsed))"
proof -
  have returns: "loop net c s \<noteq> None"
    if "mqtt_connected s \<or> (\<exists>k. connect_result net (length (mqtt_attempts s) + k))"
    using that by (rule loop_returns)
  have pass: "(5000 \<le> now c - lastPublish s \<longrightarrow>
            mqtt_published s' = mqtt_published s @
              [(mqtt_topic_publish,
                (readSensors (snapshot_sensors c) Map.empty)
                  (''timestamp'' \<mapsto> JInt (uint (timestamp c)),
                   ''device_id'' \<mapsto> JString mqtt_client_id),
                publish_result c)]
          \<and> lastPublish s' = now c)
      \<and> (now c - lastPublish s < 5000 \<longrightarrow>
            mqtt_published s' = mqtt_published s \<and> lastPublish s' = lastPublish s)
      \<and> (\<forall>elapsed. now c = lastPublish s + of_nat elapsed
            \<and> mqtt_published s' \<noteq> mqtt_published s \<longrightarrow> 5000 \<le> elapsed)"
    if "loop net c s = Some s'" for s'
  proof -
    from that obtain t where t: "connectMQTT net s = Some t"
      and s': "s' = delay 100 (autoControlDevices (control_sensors c)
          (if 5000 \<le> now c - lastPublish s
           then (publishSensorData c
                   (case inbound c of None \<Rightarrow> t | Some message \<Rightarrow> controlDevices net message t))
                 \<lparr>lastPublish := now c\<rparr>
           else (case inbound c of None \<Rightarrow> t | Some message \<Rightarrow> controlDevices net message t)))"
      by (rule loop_result)
    let ?u = "case inbound c of None \<Rightarrow> t | Some message \<Rightarrow> controlDevices net message t"
    have u: "lastPublish ?u = lastPublish s" "mqtt_published ?u = mqtt_published s"
      using connectMQTT_keeps [OF t] by (cases "inbound c"; simp)+
    have due: "mqtt_published s' = mqtt_published s @
              [(mqtt_topic_publish,
                (readSensors (snapshot_sensors c) Map.empty)
                  (''timestamp'' \<mapsto> JInt (uint (timestamp c)),
                   ''device_id'' \<mapsto> JString mqtt_client_id),
                publish_result c)]
          \<and> lastPublish s' = now c"
      if "5000 \<le> now c - lastPublish s"
      using that by (simp add: s' u)
    have early: "mqtt_published s' = mqtt_published s \<and> lastPublish s' = lastPublish s"
      if "now c - lastPublish s < 5000"
      using that by (simp add: s' u not_le [symmetric])
    have gap: "5000 \<le> elapsed"
      if "now c = lastPublish s + of_nat elapsed \<and> mqtt_published s' \<noteq> mqtt_published s"
      for elapsed
    proof -
      from that early have "5000 \<le> now c - lastPublish s"
        by (metis not_le)
      with that show ?thesis
        by (metis elapsed_wraps)
    qed
    from due early gap show ?thesis by blast
  qed
  from returns pass show ?thesis by blast
qed

theorem publish_gate_witness:
  "loop lab_network lab_cycle power_on \<noteq> None
   \<and> lastPublish (the (loop lab_network lab_cycle power_on)) = 6000
   \<and> length (mqtt_published (the (loop lab_network lab_cycle power_on))) = 1
   \<and> snd (snd (last (mqtt_published (the (loop lab_network lab_cycle power_on))))) = False
   \<and> loop lab_network (lab_cycle\<lparr>now := 10999\<rparr>) (the (loop lab_network lab_cycle power_on)) \<noteq> None
   \<and> mqtt_published
        (the (loop lab_network (lab_cycle\<lparr>now := 10999\<rparr>) (the (loop lab_network lab_cycle power_on))))
       = mqtt_published (the (loop lab_network lab_cycle power_on))
   \<and> lastPublish
        (the (loop lab_network (lab_cycle\<lparr>now := 10999\<rparr>) (the (loop lab_network lab_cycle power_on))))
       = 6000"
proof -
  have start: "lastPublish power_on = 0" "mqtt_published power_on = []"
    by (simp_all add: power_on_def)
  from publish_gate [of power_on lab_network lab_cycle] lab_connects [of power_on]
  obtain s1 where s1: "loop lab_network lab_cycle power_on = Some s1"
    by blast
  have due: "(5000 :: 32 word) \<le> now lab_cycle - lastPublish power_on"
    by (simp add: start)
  from publish_gate [of power_on lab_network lab_cycle] s1 due
  have first: "mqtt_published s1 = mqtt_published power_on @
              [(mqtt_topic_publish,
                (readSensors (snapshot_sensors lab_cycle) Map.empty)
                  (''timestamp'' \<mapsto> JInt (uint (timestamp lab_cycle)),
                   ''device_id'' \<mapsto> JString mqtt_client_id),
                publish_result lab_cycle)]"
    "lastPublish s1 = now lab_cycle"
    by blast+
  from publish_gate [of s1 lab_network "lab_cycle\<lparr>now := 10999\<rparr>"] lab_connects [of s1]
  obtain s2 where s2: "loop lab_network (lab_cycle\<lparr>now := 10999\<rparr>) s1 = Some s2"
    by blast
  have early: "now (lab_cycle\<lparr>now := 10999\<rparr>) - lastPublish s1 < 5000"
    by (simp add: first(2))
  from publish_gate [of s1 lab_network "lab_cycle\<lparr>now := 10999\<rparr>"] s2 early
  have second: "mqtt_published s2 = mqtt_published s1" "lastPublish s2 = lastPublish s1"
    by blast+
  from s1 s2 first second show ?thesis
    by (simp add: start)
qed

subsection \<open>Automatic control\<close>

lemma calculateNoiseLevel_loud: "calculateNoiseLevel 10000000 = Fin 120"
proof -
  have "calculateNoiseLevel 10000000 =
      Fin (max 30 (min 120 (20 * log 10 (real_of_int 10000000 * 3.3 / 4095 / 0.00631))))"
    by (rule calculateNoiseLevel_pos) simp
  moreover have "max 30 (min 120 (20 * log 10 (real_of_int 10000000 * 3.3 / 4095 / 0.00631))) = 120"
    using log10_huge by (simp add: min_def max_def)
  ultimately show ?thesis by simp
qed

text \<open>
  A reading of the 12-bit ADC is between 0 and 4095, a voltage of at most 3.3 V: the
  level computed from it stays below 60 dB, under the noise threshold of 70.
\<close>

lemma calculateNoiseLevel_adc_quiet:
  assumes "0 \<le> m" "m \<le> 4095"
  shows "\<not> fgt (calculateNoiseLevel m) (Fin 70)"
proof (cases "m = 0")
  case True
  then show ?thesis by (simp add: calculateNoiseLevel_zero fgt_def)
next
  case False
  with assms have pos: "0 < m" by simp
  let ?x = "real_of_int m * 3.3 / 4095 / 0.00631"
  have x: "0 < ?x" "?x \<le> 10 ^ 3"
    using pos assms by simp_all
  have "log 10 ?x \<le> 3"
    using x by (subst log_le_iff) (simp_all add: powr_numeral)
  then have "20 * log 10 ?x \<le> 60" by simp
  then show ?thesis
    using pos by (simp add: calculateNoiseLevel_pos fgt_def min_def max_def)
qed

lemma autoControlDevices_pins:
  "pins (autoControlDevices sn s) =
     (pins s)(RELAY_FAN := (if fgt (dht_temperature sn) (Fin 35) then LOW else HIGH),
              RELAY_LIGHT := (if flt (light_level sn) (Fin 300) then LOW else HIGH))"
  by (simp add: autoControlDevices_def Let_def of_long_def TEMP_THRESHOLD_def LUX_THRESHOLD_def
      digitalWrite_def fun_eq_iff)

lemma autoControlDevices_tones:
  "tones (autoControlDevices sn s) =
     (if fgt (calculateNoiseLevel (mic sn)) (Fin 70) then tones s @ [(BUZZER_PIN, 1000, 1000)]
      else tones s)"
  by (simp add: autoControlDevices_def Let_def of_long_def NOISE_THRESHOLD_def tone_def)

lemma loop_tones:
  assumes "loop net c s = Some s'"
  shows "tones s' =
     (if fgt (calculateNoiseLevel (mic (control_sensors c))) (Fin 70)
      then tones s @ [(BUZZER_PIN, 1000, 1000)] else tones s)"
proof -
  from assms obtain t where t: "connectMQTT net s = Some t"
    and s': "s' = delay 100 (autoControlDevices (control_sensors c)
          (if 5000 \<le> now c - lastPublish s
           then (publishSensorData c
                   (case inbound c of None \<Rightarrow> t | Some message \<Rightarrow> controlDevices net message t))
                 \<lparr>lastPublish := now c\<rparr>
           else (case inbound c of None \<Rightarrow> t | Some message \<Rightarrow> controlDevices net message t)))"
    by (rule loop_result)
  have "tones (case inbound c of None \<Rightarrow> t | Some message \<Rightarrow> controlDevices net message t)
      = tones s"
    using connectMQTT_keeps [OF t] by (cases "inbound c") simp_all
  then show ?thesis
    by (simp add: s' autoControlDevices_tones)
qed

lemma loop_relays:
  assumes "loop net c s = Some s'"
  shows "pins s' RELAY_FAN =
      (if fgt (dht_temperature (control_sensors c)) (Fin 35) then LOW else HIGH)"
    and "pins s' RELAY_LIGHT =
      (if flt (light_level (control_sensors c)) (Fin 300) then LOW else HIGH)"
proof -
  from assms obtain u where "s' = delay 100 (autoControlDevices (control_sensors c) u)"
    by (rule loop_result)
  then show "pins s' RELAY_FAN =
      (if fgt (dht_temperature (control_sensors c)) (Fin 35) then LOW else HIGH)"
    and "pins s' RELAY_LIGHT =
      (if flt (light_level (control_sensors c)) (Fin 300) then LOW else HIGH)"
    by (simp_all add: autoControlDevices_pins)
qed

text \<open>
  C7. \<open>autoControlDevices\<close> writes the fan pin LOW (on) when temperature > 35 and HIGH
  (off) otherwise, and the light pin LOW (on) when lux < 300 and HIGH (off) otherwise:
  the levels depend on the readings alone, so running it again on the same readings
  changes no pin. It calls \<^verbatim>\<open>tone(BUZZER_PIN, 1000, 1000)\<close> once when noise > 70 and not at
  all otherwise, and never writes a level to the buzzer pin. A temperature of 36 switches
  the fan on and 250 lux the light. It runs in every pass of \<^verbatim>\<open>loop()\<close>: a pass made
  with the connection up, or with a connect attempt that succeeds, returns, and at its
  end fan and light are as the thresholds say, whatever they were before and whatever
  command arrived in the pass, and the pass has made one tone call when noise > 70 and
  none otherwise.
\<close>

theorem autoControlDevices_thresholds:
  "fan_on (autoControlDevices sn s) = fgt (dht_temperature sn) (Fin 35)
   \<and> pins (autoControlDevices sn s) RELAY_FAN = (if fgt (dht_temperature sn) (Fin 35) then LOW else HIGH)
   \<and> light_on (autoControlDevices sn s) = flt (light_level sn) (Fin 300)
   \<and> pins (autoControlDevices sn s) RELAY_LIGHT = (if flt (light_level sn) (Fin 300) then LOW else HIGH)
   \<and> pins (autoControlDevices sn (autoControlDevices sn s)) = pins (autoControlDevices sn s)
   \<and> tones (autoControlDevices sn s) =
       (if fgt (calculateNoiseLevel (mic sn)) (Fin 70) then tones s @ [(BUZZER_PIN, 1000, 1000)]
        else tones s)
   \<and> pins (autoControlDevices sn s) BUZZER_PIN = pins s BUZZER_PIN
   \<and> (dht_temperature sn = Fin 36 \<longrightarrow> fan_on (autoControlDevices sn s))
   \<and> (light_level sn = Fin 250 \<longrightarrow> light_on (autoControlDevices sn s))
   \<and> (mqtt_connected s \<or> (\<exists>k. connect_result net (length (mqtt_attempts s) + k)) \<longrightarrow>
        (\<exists>s'. loop net c s = Some s'
          \<and> fan_on s' = fgt (dht_temperature (control_sensors c)) (Fin 35)
          \<and> pins s' RELAY_FAN =
              (if fgt (dht_temperature (control_sensors c)) (Fin 35) then LOW else HIGH)
          \<and> light_on s' = flt (light_level (control_sensors c)) (Fin 300)
          \<and> pins s' RELAY_LIGHT =
              (if flt (light_level (control_sensors c)) (Fin 300) then LOW else HIGH)
          \<and> tones s' =
              (if fgt (calculateNoiseLevel (mic (control_sensors c))) (Fin 70)
               then tones s @ [(BUZZER_PIN, 1000, 1000)] else tones s)))
   \<and> (\<forall>s'. loop net c s = Some s' \<longrightarrow>
          fan_on s' = fgt (dht_temperature (control_sensors c)) (Fin 35)
        \<and> light_on s' = flt (light_level (control_sensors c)) (Fin 300)
        \<and> tones s' =
              (if fgt (calculateNoiseLevel (mic (control_sensors c))) (Fin 70)
               then tones s @ [(BUZZER_PIN, 1000, 1000)] else tones s))"
proof -
  have every_pass: "fan_on s' = fgt (dht_temperature (control_sensors c)) (Fin 35)
          \<and> pins s' RELAY_FAN =
              (if fgt (dht_temperature (control_sensors c)) (Fin 35) then LOW else HIGH)
          \<and> light_on s' = flt (light_level (control_sensors c)) (Fin 300)
          \<and> pins s' RELAY_LIGHT =
              (if flt (light_level (control_sensors c)) (Fin 300) then LOW else HIGH)
          \<and> tones s' =
              (if fgt (calculateNoiseLevel (mic (control_sensors c))) (Fin 70)
               then tones s @ [(BUZZER_PIN, 1000, 1000)] else tones s)"
    if "loop net c s = Some s'" for s'
    using loop_relays [OF that] loop_tones [OF that]
    by (simp add: fan_on_def light_on_def)
  have returns: "\<exists>s'. loop net c s = Some s'
          \<and> fan_on s' = fgt (dht_temperature (control_sensors c)) (Fin 35)
          \<and> pins s' RELAY_FAN =
              (if fgt (dht_temperature (control_sensors c)) (Fin 35) then LOW else HIGH)
          \<and> light_on s' = flt (light_level (control_sensors c)) (Fin 300)
          \<and> pins s' RELAY_LIGHT =
              (if flt (light_level (control_sensors c)) (Fin 300) then LOW else HIGH)
          \<and> tones s' =
              (if fgt (calculateNoiseLevel (mic (control_sensors c))) (Fin 70)
               then tones s @ [(BUZZER_PIN, 1000, 1000)] else tones s)"
    if "mqtt_connected s \<or> (\<exists>k. connect_result net (length (mqtt_attempts s) + k))"
  proof -
    from loop_returns [OF that] obtain s' where "loop net c s = Some s'"
      by blast
    with every_pass [OF this] show ?thesis by blast
  qed
  have once: "fan_on (autoControlDevices sn s) = fgt (dht_temperature sn) (Fin 35)
   \<and> pins (autoControlDevices sn s) RELAY_FAN = (if fgt (dht_temperature sn) (Fin 35) then LOW else HIGH)
   \<and> light_on (autoControlDevices sn s) = flt (light_level sn) (Fin 300)
   \<and> pins (autoControlDevices sn s) RELAY_LIGHT = (if flt (light_level sn) (Fin 300) then LOW else HIGH)
   \<and> pins (autoControlDevices sn (autoControlDevices sn s)) = pins (autoControlDevices sn s)
   \<and> tones (autoControlDevices sn s) =
       (if fgt (calculateNoiseLevel (mic sn)) (Fin 70) then tones s @ [(BUZZER_PIN, 1000, 1000)]
        else tones s)
   \<and> pins (autoControlDevices sn s) BUZZER_PIN = pins s BUZZER_PIN
   \<and> (dht_temperature sn = Fin 36 \<longrightarrow> fan_on (autoControlDevices sn s))
   \<and> (light_level sn = Fin 250 \<longrightarrow> light_on (autoControlDevices sn s))"
    by (simp add: autoControlDevices_pins autoControlDevices_tones fan_on_def light_on_def fgt_def)
  from every_pass have all_passes: "\<forall>s'. loop net c s = Some s' \<longrightarrow>
          fan_on s' = fgt (dht_temperature (control_sensors c)) (Fin 35)
        \<and> light_on s' = flt (light_level (control_sensors c)) (Fin 300)
        \<and> tones s' =
              (if fgt (calculateNoiseLevel (mic (control_sensors c))) (Fin 70)
               then tones s @ [(BUZZER_PIN, 1000, 1000)] else tones s)"
    by blast
  from once returns all_passes show ?thesis by blast
qed

theorem autoControlDevices_thresholds_witness:
  "\<not> fan_on (setup_pins power_on) \<and> \<not> light_on (setup_pins power_on)
   \<and> tones (setup_pins power_on) = []
   \<and> fan_on (autoControlDevices \<lparr>mq135 = 0, dht_temperature = Fin 36, dht_humidity = Fin 50,
       light_level = Fin 250, mic = 10000000\<rparr> (setup_pins power_on))
   \<and> light_on (autoControlDevices \<lparr>mq135 = 0, dht_temperature = Fin 36, dht_humidity = Fin 50,
       light_level = Fin 250, mic = 10000000\<rparr> (setup_pins power_on))
   \<and> tones (autoControlDevices \<lparr>mq135 = 0, dht_temperature = Fin 36, dht_humidity = Fin 50,
       light_level = Fin 250, mic = 10000000\<rparr> (setup_pins power_on)) = [(BUZZER_PIN, 1000, 1000)]
   \<and> fan_on power_on \<and> light_on power_on
   \<and> \<not> fan_on (autoControlDevices \<lparr>mq135 = 0, dht_temperature = NaN, dht_humidity = Fin 50,
       light_level = Fin 300, mic = 4095\<rparr> power_on)
   \<and> \<not> light_on (autoControlDevices \<lparr>mq135 = 0, dht_temperature = NaN, dht_humidity = Fin 50,
       light_level = Fin 300, mic = 4095\<rparr> power_on)
   \<and> tones (autoControlDevices \<lparr>mq135 = 0, dht_temperature = NaN, dht_humidity = Fin 50,
       light_level = Fin 300, mic = 4095\<rparr> power_on) = []
   \<and> loop lab_network lab_cycle (setup_pins power_on) \<noteq> None
   \<and> fan_on (the (loop lab_network lab_cycle (setup_pins power_on)))
   \<and> light_on (the (loop lab_network lab_cycle (setup_pins power_on)))
   \<and> tones (the (loop lab_network lab_cycle (setup_pins power_on))) = [(BUZZER_PIN, 1000, 1000)]
   \<and> loop lab_network
        (lab_cycle\<lparr>control_sensors := \<lparr>mq135 = 0, dht_temperature = Fin 20, dht_humidity = Fin 50,
           light_level = Fin 500, mic = 4095\<rparr>\<rparr>)
        (the (loop lab_network lab_cycle (setup_pins power_on))) \<noteq> None
   \<and> \<not> fan_on (the (loop lab_network
        (lab_cycle\<lparr>control_sensors := \<lparr>mq135 = 0, dht_temperature = Fin 20, dht_humidity = Fin 50,
           light_level = Fin 500, mic = 4095\<rparr>\<rparr>)
        (the (loop lab_network lab_cycle (setup_pins power_on)))))
   \<and> \<not> light_on (the (loop lab_network
        (lab_cycle\<lparr>control_sensors := \<lparr>mq135 = 0, dht_temperature = Fin 20, dht_humidity = Fin 50,
           light_level = Fin 500, mic = 4095\<rparr>\<rparr>)
        (the (loop lab_network lab_cycle (setup_pins power_on)))))
   \<and> tones (the (loop lab_network
        (lab_cycle\<lparr>control_sensors := \<lparr>mq135 = 0, dht_temperature = Fin 20, dht_humidity = Fin 50,
           light_level = Fin 500, mic = 4095\<rparr>\<rparr>)
        (the (loop lab_network lab_cycle (setup_pins power_on))))) = [(BUZZER_PIN, 1000, 1000)]"
proof -
  let ?hot = "\<lparr>mq135 = 0, dht_temperature = Fin 36, dht_humidity = Fin 50,
       light_level = Fin 250, mic = 10000000\<rparr>"
  let ?failed = "\<lparr>mq135 = 0, dht_temperature = NaN, dht_humidity = Fin 50,
       light_level = Fin 300, mic = 4095\<rparr>"
  let ?calm = "lab_cycle\<lparr>control_sensors := \<lparr>mq135 = 0, dht_temperature = Fin 20,
       dht_humidity = Fin 50, light_level = Fin 500, mic = 4095\<rparr>\<rparr>"
  have quiet: "\<not> fgt (calculateNoiseLevel 4095) (Fin 70)"
    by (rule calculateNoiseLevel_adc_quiet) simp_all
  have off: "\<not> fan_on (setup_pins power_on)" "\<not> light_on (setup_pins power_on)"
    by (simp_all add: fan_on_def light_on_def setup_pins_levels)
  have silent: "tones (setup_pins power_on) = []" "tones power_on = []"
    by (simp_all add: setup_pins_def Let_def pinMode_def power_on_def)
  have on: "fan_on power_on" "light_on power_on"
    by (simp_all add: fan_on_def light_on_def power_on_def)
  from autoControlDevices_thresholds [of ?hot "setup_pins power_on"]
  have direct: "fan_on (autoControlDevices ?hot (setup_pins power_on))"
    "light_on (autoControlDevices ?hot (setup_pins power_on))"
    "tones (autoControlDevices ?hot (setup_pins power_on)) = [(BUZZER_PIN, 1000, 1000)]"
    by (simp_all add: calculateNoiseLevel_loud fgt_def silent)
  from autoControlDevices_thresholds [of ?failed power_on] quiet
  have failed: "\<not> fan_on (autoControlDevices ?failed power_on)"
    "\<not> light_on (autoControlDevices ?failed power_on)"
    "tones (autoControlDevices ?failed power_on) = []"
    by (simp_all add: fgt_def silent)
  from autoControlDevices_thresholds [of _ "setup_pins power_on" lab_network lab_cycle]
    lab_connects [of "setup_pins power_on"]
  obtain s1 where s1: "loop lab_network lab_cycle (setup_pins power_on) = Some s1"
    "fan_on s1 = fgt (dht_temperature (control_sensors lab_cycle)) (Fin 35)"
    "light_on s1 = flt (light_level (control_sensors lab_cycle)) (Fin 300)"
    "tones s1 = (if fgt (calculateNoiseLevel (mic (control_sensors lab_cycle))) (Fin 70)
       then tones (setup_pins power_on) @ [(BUZZER_PIN, 1000, 1000)]
       else tones (setup_pins power_on))"
    by blast
  have first: "fan_on s1" "light_on s1" "tones s1 = [(BUZZER_PIN, 1000, 1000)]"
    using s1(2-4) by (simp_all add: calculateNoiseLevel_loud fgt_def silent)
  from autoControlDevices_thresholds [of _ s1 lab_network ?calm] lab_connects [of s1]
  obtain s2 where s2: "loop lab_network ?calm s1 = Some s2"
    "fan_on s2 = fgt (dht_temperature (control_sensors ?calm)) (Fin 35)"
    "light_on s2 = flt (light_level (control_sensors ?calm)) (Fin 300)"
    "tones s2 = (if fgt (calculateNoiseLevel (mic (control_sensors ?calm))) (Fin 70)
       then tones s1 @ [(BUZZER_PIN, 1000, 1000)] else tones s1)"
    by blast
  have second: "\<not> fan_on s2" "\<not> light_on s2" "tones s2 = [(BUZZER_PIN, 1000, 1000)]"
    using s2(2-4) quiet by (simp_all add: fgt_def first)
  from off silent on direct failed s1(1) first s2(1) second show ?thesis
    by simp
qed

subsection \<open>A failed climate reading\<close>

lemma readSensors_temperature:
  "readSensors sn doc ''temperature'' =
     (if isnan (dht_temperature sn) then doc ''temperature''
      else Some (JFloat (dht_temperature sn)))"
  by (simp add: readSensors_def Let_def)

lemma readSensors_humidity:
  "readSensors sn doc ''humidity'' =
     (if isnan (dht_humidity sn) then doc ''humidity'' else Some (JFloat (dht_humidity sn)))"
  by (simp add: readSensors_def Let_def)

lemma readSensors_class_score:
  "readSensors sn doc ''class_score'' =
     Some (JInt (calculateClassScore (of_long (map_long (mq135 sn) 0 4095 300 10000))
       (dht_temperature sn) (dht_humidity sn) (light_level sn) (calculateNoiseLevel (mic sn))))"
  by (simp add: readSensors_def Let_def)

lemma isnan_no_penalty: "isnan x \<Longrightarrow> \<not> fgt x y"
  by (cases x; cases y) (simp_all add: fgt_def)

lemma published_snapshot:
  "fst (snd (last (mqtt_published (publishSensorData c s)))) =
     (readSensors (snapshot_sensors c) Map.empty)
       (''timestamp'' \<mapsto> JInt (uint (timestamp c)), ''device_id'' \<mapsto> JString mqtt_client_id)"
  by simp

text \<open>
  C4. When the temperature read is NaN, \<open>readSensors\<close> does not write the
  \<^verbatim>\<open>temperature\<close> key at all, so the snapshot, which starts empty, and the document handed
  to the broker have no such field, and the score is the one computed from the other four
  conditions: no temperature penalty. The same holds for the humidity. A reading that is
  not NaN is written as it is.
\<close>

theorem climate_read_failure:
  "(isnan (dht_temperature sn) \<longrightarrow>
        readSensors sn doc ''temperature'' = doc ''temperature''
      \<and> readSensors sn Map.empty ''temperature'' = None
      \<and> readSensors sn doc ''class_score'' =
          Some (JInt (max (100
            - (if fgt (of_long (map_long (mq135 sn) 0 4095 300 10000)) (Fin 1000) then 20 else 0)
            - (if fgt (dht_humidity sn) (Fin 80) then 10 else 0)
            - (if flt (light_level sn) (Fin 300) then 15 else 0)
            - (if fgt (calculateNoiseLevel (mic sn)) (Fin 70) then 20 else 0)) 0)))
   \<and> (isnan (dht_humidity sn) \<longrightarrow>
        readSensors sn doc ''humidity'' = doc ''humidity''
      \<and> readSensors sn Map.empty ''humidity'' = None
      \<and> readSensors sn doc ''class_score'' =
          Some (JInt (max (100
            - (if fgt (of_long (map_long (mq135 sn) 0 4095 300 10000)) (Fin 1000) then 20 else 0)
            - (if fgt (dht_temperature sn) (Fin 35) then 15 else 0)
            - (if flt (light_level sn) (Fin 300) then 15 else 0)
            - (if fgt (calculateNoiseLevel (mic sn)) (Fin 70) then 20 else 0)) 0)))
   \<and> (\<not> isnan (dht_temperature sn) \<longrightarrow>
        readSensors sn doc ''temperature'' = Some (JFloat (dht_temperature sn)))
   \<and> (\<not> isnan (dht_humidity sn) \<longrightarrow>
        readSensors sn doc ''humidity'' = Some (JFloat (dht_humidity sn)))
   \<and> (isnan (dht_temperature (snapshot_sensors c)) \<longrightarrow>
        fst (snd (last (mqtt_published (publishSensorData c s)))) ''temperature'' = None)
   \<and> (isnan (dht_humidity (snapshot_sensors c)) \<longrightarrow>
        fst (snd (last (mqtt_published (publishSensorData c s)))) ''humidity'' = None)"
proof -
  have score: "calculateClassScore co2 temp humidity lux noise =
     max (100 - (if fgt co2 (Fin 1000) then 20 else 0)
              - (if fgt temp (Fin 35) then 15 else 0)
              - (if fgt humidity (Fin 80) then 10 else 0)
              - (if flt lux (Fin 300) then 15 else 0)
              - (if fgt noise (Fin 70) then 20 else 0)) 0"
    for co2 temp humidity lux noise
    by (simp add: calculateClassScore_def of_long_def Let_def
        CO2_THRESHOLD_def TEMP_THRESHOLD_def HUMIDITY_THRESHOLD_def LUX_THRESHOLD_def
        NOISE_THRESHOLD_def)
  have no_temp: "readSensors sn doc ''temperature'' = doc ''temperature''
      \<and> readSensors sn Map.empty ''temperature'' = None
      \<and> readSensors sn doc ''class_score'' =
          Some (JInt (max (100
            - (if fgt (of_long (map_long (mq135 sn) 0 4095 300 10000)) (Fin 1000) then 20 else 0)
            - (if fgt (dht_humidity sn) (Fin 80) then 10 else 0)
            - (if flt (light_level sn) (Fin 300) then 15 else 0)
            - (if fgt (calculateNoiseLevel (mic sn)) (Fin 70) then 20 else 0)) 0))"
    if "isnan (dht_temperature sn)"
    using that isnan_no_penalty [OF that, of "Fin 35"]
    by (simp add: readSensors_temperature readSensors_class_score score)
  have no_hum: "readSensors sn doc ''humidity'' = doc ''humidity''
      \<and> readSensors sn Map.empty ''humidity'' = None
      \<and> readSensors sn doc ''class_score'' =
          Some (JInt (max (100
            - (if fgt (of_long (map_long (mq135 sn) 0 4095 300 10000)) (Fin 1000) then 20 else 0)
            - (if fgt (dht_temperature sn) (Fin 35) then 15 else 0)
            - (if flt (light_level sn) (Fin 300) then 15 else 0)
            - (if fgt (calculateNoiseLevel (mic sn)) (Fin 70) then 20 else 0)) 0))"
    if "isnan (dht_humidity sn)"
    using that isnan_no_penalty [OF that, of "Fin 80"]
    by (simp add: readSensors_humidity readSensors_class_score score)
  have temp: "readSensors sn doc ''temperature'' = Some (JFloat (dht_temperature sn))"
    if "\<not> isnan (dht_temperature sn)"
    using that by (simp add: readSensors_temperature)
  have hum: "readSensors sn doc ''humidity'' = Some (JFloat (dht_humidity sn))"
    if "\<not> isnan (dht_humidity sn)"
    using that by (simp add: readSensors_humidity)
  have sent_temp: "fst (snd (last (mqtt_published (publishSensorData c s)))) ''temperature'' = None"
    if "isnan (dht_temperature (snapshot_sensors c))"
    using that by (simp only: published_snapshot) (simp add: readSensors_temperature)
  have sent_hum: "fst (snd (last (mqtt_published (publishSensorData c s)))) ''humidity'' = None"
    if "isnan (dht_humidity (snapshot_sensors c))"
    using that by (simp only: published_snapshot) (simp add: readSensors_humidity)
  from no_temp no_hum temp hum sent_temp sent_hum show ?thesis by blast
qed

theorem climate_read_failure_witness:
  "isnan (dht_temperature (snapshot_sensors lab_cycle))
   \<and> \<not> isnan (dht_humidity (snapshot_sensors lab_cycle))
   \<and> readSensors (snapshot_sensors lab_cycle) Map.empty ''temperature'' = None
   \<and> readSensors (snapshot_sensors lab_cycle) Map.empty ''humidity'' = Some (JFloat (Fin 85))
   \<and> readSensors (snapshot_sensors lab_cycle) Map.empty ''class_score'' = Some (JInt 55)
   \<and> fst (snd (last (mqtt_published (publishSensorData lab_cycle power_on)))) ''temperature'' = None
   \<and> isnan (dht_humidity \<lparr>mq135 = 0, dht_temperature = Fin 36, dht_humidity = NaN,
        light_level = Fin 400, mic = 0\<rparr>)
   \<and> \<not> isnan (dht_temperature \<lparr>mq135 = 0, dht_temperature = Fin 36, dht_humidity = NaN,
        light_level = Fin 400, mic = 0\<rparr>)
   \<and> readSensors \<lparr>mq135 = 0, dht_temperature = Fin 36, dht_humidity = NaN,
        light_level = Fin 400, mic = 0\<rparr> Map.empty ''humidity'' = None
   \<and> readSensors \<lparr>mq135 = 0, dht_temperature = Fin 36, dht_humidity = NaN,
        light_level = Fin 400, mic = 0\<rparr> Map.empty ''temperature'' = Some (JFloat (Fin 36))
   \<and> readSensors \<lparr>mq135 = 0, dht_temperature = Fin 36, dht_humidity = NaN,
        light_level = Fin 400, mic = 0\<rparr> Map.empty ''class_score'' = Some (JInt 85)"
proof -
  have quiet: "\<not> fgt (calculateNoiseLevel 4095) (Fin 70)"
    by (rule calculateNoiseLevel_adc_quiet) simp_all
  have silent: "\<not> fgt (calculateNoiseLevel 0) (Fin 70)"
    by (simp add: calculateNoiseLevel_zero fgt_def)
  have gas: "map_long 2048 0 4095 300 10000 = 5151" "map_long 0 0 4095 300 10000 = 300"
    by (simp_all add: map_long_adc)
  show ?thesis
    using climate_read_failure [of "snapshot_sensors lab_cycle" Map.empty lab_cycle power_on]
      climate_read_failure [of "\<lparr>mq135 = 0, dht_temperature = Fin 36, dht_humidity = NaN,
        light_level = Fin 400, mic = 0\<rparr>" Map.empty lab_cycle power_on]
      quiet silent
    by (simp add: gas fgt_def of_long_def)
qed

end
